theory Spec2Isabelle
  imports Complex_Main
begin

section \<open>JavaScript values read by the monitor\<close>

text \<open>
  The monitor (module \<^verbatim>\<open>shared/mysql-monitor\<close>) reads its options with
  \<^verbatim>\<open>!== false\<close>, \<^verbatim>\<open>||\<close>, truthiness tests and \<^verbatim>\<open>>\<close>, so option values
  are kept as JavaScript values. Numbers are integers (durations come from
  \<^verbatim>\<open>Date.now() - startTime\<close>); strings and NaN are not represented as option values.
\<close>

datatype jsval = JUndefined | JNull | JBool bool | JNum int

fun truthy :: "jsval \<Rightarrow> bool" where
  "truthy JUndefined = False"
| "truthy JNull = False"
| "truthy (JBool b) = b"
| "truthy (JNum n) = (n \<noteq> 0)"

text \<open>\<^verbatim>\<open>a || b\<close>\<close>

definition js_or :: "jsval \<Rightarrow> jsval \<Rightarrow> jsval" where
  "js_or a b = (if truthy a then a else b)"

text \<open>
  \<^verbatim>\<open>x > v\<close> for a number \<open>x\<close>: \<open>v\<close> is converted to a number first
  (\<^verbatim>\<open>null\<close> is 0, \<^verbatim>\<open>true\<close> is 1, \<^verbatim>\<open>undefined\<close> is NaN, and every comparison
  with NaN is false).
\<close>

fun js_gt :: "int \<Rightarrow> jsval \<Rightarrow> bool" where
  "js_gt x (JNum y) = (x > y)"
| "js_gt x JNull = (x > 0)"
| "js_gt x (JBool b) = (x > (if b then 1 else 0))"
| "js_gt x JUndefined = False"

datatype js_error = Error string

section \<open>MySQLMonitor: data\<close>

text \<open>
  The object handed to the constructor: a key that is absent is \<open>None\<close>
  (\<^verbatim>\<open>new MySQLMonitor()\<close> is the object with no key).
\<close>

record monitor_args =
  arg_logWarnings :: "jsval option"
  arg_trackSlowQueries :: "jsval option"
  arg_slowQueryThreshold :: "jsval option"

record monitor_options =
  logWarnings :: jsval
  trackSlowQueries :: jsval
  slowQueryThreshold :: jsval

text \<open>One row of \<^verbatim>\<open>SHOW WARNINGS\<close>.\<close>

record raw_warning =
  Level :: string
  Code :: int
  Message :: string

text \<open>
  The slow-query record \<^verbatim>\<open>{timestamp, query, executionTime}\<close>; the warning record
  \<^verbatim>\<open>warningData\<close> has the same three fields and \<^verbatim>\<open>level\<close>, \<^verbatim>\<open>code\<close>,
  \<^verbatim>\<open>message\<close>.
\<close>

record slow_query =
  timestamp :: string
  query :: string
  executionTime :: int

record warning_data = slow_query +
  level :: string
  code :: int
  message :: string

record monitor =
  options :: monitor_options
  warnings :: "warning_data list"
  deprecationWarnings :: "warning_data list"
  slowQueries :: "slow_query list"

text \<open>What the monitor hands to the logger (\<^verbatim>\<open>logger.warn\<close>, \<^verbatim>\<open>logger.error\<close>).\<close>

datatype log_entry =
    WarnDeprecation warning_data
  | WarnSlowQuery string int jsval
  | ErrorCheckingWarnings js_error
  | WarnTrailingSpaces string string nat
  | ErrorScanningColumn string string js_error

section \<open>MySQLMonitor: constructor\<close>

text \<open>Reading a property of the argument object: an absent key reads \<^verbatim>\<open>undefined\<close>.\<close>

definition read_key :: "jsval option \<Rightarrow> jsval" where
  "read_key v = (case v of None \<Rightarrow> JUndefined | Some x \<Rightarrow> x)"

text \<open>
  \<^verbatim>\<open>{ key: d, ...options }\<close>: the spread comes last, so a key that \<^verbatim>\<open>options\<close> has
  replaces the value computed before it.
\<close>

definition spread :: "jsval \<Rightarrow> jsval option \<Rightarrow> jsval" where
  "spread d v = (case v of None \<Rightarrow> d | Some x \<Rightarrow> x)"

definition new_MySQLMonitor :: "monitor_args \<Rightarrow> monitor" where
  "new_MySQLMonitor args =
     \<lparr> options =
         \<lparr> logWarnings =
             spread (JBool (read_key (arg_logWarnings args) \<noteq> JBool False)) (arg_logWarnings args),
           trackSlowQueries =
             spread (JBool (read_key (arg_trackSlowQueries args) \<noteq> JBool False))
               (arg_trackSlowQueries args),
           slowQueryThreshold =
             spread (js_or (read_key (arg_slowQueryThreshold args)) (JNum 1000))
               (arg_slowQueryThreshold args) \<rparr>,
       warnings = [],
       deprecationWarnings = [],
       slowQueries = [] \<rparr>"

section \<open>MySQLMonitor.isDeprecationWarning\<close>

text \<open>
  \<^verbatim>\<open>String.prototype.toLowerCase\<close> on the ASCII letters; every other character is kept.
\<close>

definition lower_char :: "char \<Rightarrow> char" where
  "lower_char c =
     (case map_of (zip ''ABCDEFGHIJKLMNOPQRSTUVWXYZ'' ''abcdefghijklmnopqrstuvwxyz'') c of
        Some l \<Rightarrow> l
      | None \<Rightarrow> c)"

definition toLowerCase :: "string \<Rightarrow> string" where
  "toLowerCase s = map lower_char s"

text \<open>\<^verbatim>\<open>s.startsWith(k)\<close> and \<^verbatim>\<open>s.includes(k)\<close>.\<close>

fun startsWith :: "string \<Rightarrow> string \<Rightarrow> bool" where
  "startsWith s [] = True"
| "startsWith [] (k # ks) = False"
| "startsWith (c # cs) (k # ks) = (c = k \<and> startsWith cs ks)"

fun js_includes :: "string \<Rightarrow> string \<Rightarrow> bool" where
  "js_includes [] k = startsWith [] k"
| "js_includes (c # cs) k = (startsWith (c # cs) k \<or> js_includes cs k)"

definition deprecationKeywords :: "string list" where
  "deprecationKeywords =
     [''deprecated'', ''will be removed'', ''is obsolete'', ''no longer supported'',
      ''authentication_string'']"

definition isDeprecationWarning :: "raw_warning \<Rightarrow> bool" where
  "isDeprecationWarning warning =
     (let message = toLowerCase (Message warning)
      in list_ex (\<lambda>keyword. js_includes message keyword) deprecationKeywords)"

section \<open>MySQLMonitor.checkWarnings\<close>

text \<open>
  The connection is what \<^verbatim>\<open>await connection.query(text)\<close> gives: \<open>Inl\<close> when the
  promise rejects, \<open>Inr\<close> the first element of the resolved array (\<open>None\<close> when it is
  \<^verbatim>\<open>undefined\<close> or \<^verbatim>\<open>null\<close>). \<open>clock i\<close> is what the \<open>i\<close>-th
  \<^verbatim>\<open>new Date().toISOString()\<close> of the call returns. The logger is taken never to raise;
  its calls are returned as a list.
\<close>

type_synonym 'a connection = "string \<Rightarrow> js_error + 'a list option"

text \<open>The object \<^verbatim>\<open>warningData\<close> built for one warning.\<close>

definition warningData ::
  "(nat \<Rightarrow> string) \<Rightarrow> string \<Rightarrow> int \<Rightarrow> nat \<Rightarrow> raw_warning \<Rightarrow> warning_data" where
  "warningData clock queryText t i warning =
     \<lparr> timestamp = clock i, query = queryText, executionTime = t,
       level = Level warning, code = Code warning, message = Message warning \<rparr>"

text \<open>The body of \<^verbatim>\<open>warnings.forEach(warning => ...)\<close>, from the \<open>i\<close>-th clock reading on.\<close>

fun forEach_warning ::
  "(nat \<Rightarrow> string) \<Rightarrow> string \<Rightarrow> int \<Rightarrow> nat \<Rightarrow> raw_warning list \<Rightarrow>
   monitor \<times> log_entry list \<Rightarrow> monitor \<times> log_entry list" where
  "forEach_warning clock queryText t i [] st = st"
| "forEach_warning clock queryText t i (warning # rest) (m, out) =
     (let d = warningData clock queryText t i warning;
          m1 = m\<lparr>warnings := warnings m @ [d]\<rparr>
      in if isDeprecationWarning warning
         then forEach_warning clock queryText t (Suc i) rest
                (m1\<lparr>deprecationWarnings := deprecationWarnings m1 @ [d]\<rparr>,
                 if truthy (logWarnings (options m1)) then out @ [WarnDeprecation d] else out)
         else forEach_warning clock queryText t (Suc i) rest (m1, out))"

definition checkWarnings ::
  "monitor \<Rightarrow> raw_warning connection \<Rightarrow> (nat \<Rightarrow> string) \<Rightarrow> string \<Rightarrow> int \<Rightarrow>
   monitor \<times> log_entry list" where
  "checkWarnings m connection clock queryText t =
     (case connection ''SHOW WARNINGS'' of
        Inl error \<Rightarrow>
          (m, if truthy (logWarnings (options m)) then [ErrorCheckingWarnings error] else [])
      | Inr ws \<Rightarrow>
          (let (m1, out1) =
                 (case ws of
                    None \<Rightarrow> (m, [])
                  | Some rows \<Rightarrow>
                      if length rows > 0 then forEach_warning clock queryText t 0 rows (m, [])
                      else (m, []));
               i = (case ws of None \<Rightarrow> 0 | Some rows \<Rightarrow> length rows)
           in if truthy (trackSlowQueries (options m1))
                 \<and> js_gt t (slowQueryThreshold (options m1))
              then (m1\<lparr>slowQueries := slowQueries m1 @
                          [\<lparr> timestamp = clock i, query = queryText, executionTime = t \<rparr>]\<rparr>,
                    if truthy (logWarnings (options m1))
                    then out1 @ [WarnSlowQuery queryText t (slowQueryThreshold (options m1))]
                    else out1)
              else (m1, out1)))"

section \<open>Double arithmetic of the statistics\<close>

text \<open>
  \<^verbatim>\<open>getStats\<close> adds and divides JavaScript numbers, which are IEEE 754 doubles: the
  result of \<^verbatim>\<open>+\<close> and of \<^verbatim>\<open>/\<close> is the exact result rounded to 53 significant
  bits, to the nearest value and to the even one in a tie. \<open>round_double\<close> is that
  rounding on the rationals; the limits of the exponent (overflow beyond \<open>2 ^ 1024\<close>,
  subnormal values below \<open>2 ^ -1022\<close>) are not represented.
\<close>

text \<open>The number of binary digits of \<open>n\<close>.\<close>

function bit_length :: "nat \<Rightarrow> nat" where
  "bit_length n = (if n = 0 then 0 else Suc (bit_length (n div 2)))"
  by pat_completeness auto
termination
  by (relation "measure (\<lambda>n. n)") auto

declare bit_length.simps [simp del]

definition pow2 :: "int \<Rightarrow> rat" where
  "pow2 e = (if 0 \<le> e then 2 ^ nat e else 1 / 2 ^ nat (- e))"

text \<open>For \<open>0 < x\<close>, the exponent \<open>e\<close> with \<open>2 ^ e \<le> x < 2 ^ (e + 1)\<close>.\<close>

definition binary_exponent :: "rat \<Rightarrow> int" where
  "binary_exponent x =
     (if 1 \<le> x then int (bit_length (nat \<lfloor>x\<rfloor>)) - 1
      else - int (bit_length (nat (\<lceil>1 / x\<rceil> - 1))))"

definition round_half_even :: "rat \<Rightarrow> int" where
  "round_half_even y =
     (let f = \<lfloor>y\<rfloor>; d = y - of_int f
      in if d < 1 / 2 then f else if 1 / 2 < d then f + 1 else if even f then f else f + 1)"

definition round_double :: "rat \<Rightarrow> rat" where
  "round_double x =
     (if x = 0 then 0
      else (let q = pow2 (binary_exponent \<bar>x\<bar> - 52)
            in of_int (round_half_even (x / q)) * q))"

text \<open>\<^verbatim>\<open>a + b\<close> and \<^verbatim>\<open>a / b\<close> on numbers (\<open>b\<close> is not 0 where the source divides).\<close>

definition js_add :: "rat \<Rightarrow> rat \<Rightarrow> rat" where
  "js_add a b = round_double (a + b)"

definition js_div :: "rat \<Rightarrow> rat \<Rightarrow> rat" where
  "js_div a b = round_double (a / b)"

section \<open>MySQLMonitor.getStats and clear\<close>

text \<open>
  \<^verbatim>\<open>getStats\<close> returns \<^verbatim>\<open>{totalWarnings, deprecationWarnings, slowQueries,
  avgSlowQueryTime}\<close>; the sum starts at 0 and takes one \<^verbatim>\<open>+\<close> per slow query.
\<close>

record stats =
  totalWarnings :: nat
  stats_deprecationWarnings :: nat
  stats_slowQueries :: nat
  avgSlowQueryTime :: rat

definition getStats :: "monitor \<Rightarrow> stats" where
  "getStats m =
     \<lparr> totalWarnings = length (warnings m),
       stats_deprecationWarnings = length (deprecationWarnings m),
       stats_slowQueries = length (slowQueries m),
       avgSlowQueryTime =
         (if length (slowQueries m) > 0
          then js_div (foldl (\<lambda>sum q. js_add sum (of_int (executionTime q))) 0 (slowQueries m))
                 (of_nat (length (slowQueries m)))
          else 0) \<rparr>"

definition clear :: "monitor \<Rightarrow> monitor" where
  "clear m = m\<lparr>warnings := [], deprecationWarnings := [], slowQueries := []\<rparr>"

text \<open>
  The states a monitor goes through: built by the constructor, then any sequence of
  \<^verbatim>\<open>checkWarnings\<close> calls (on any connection, at any time) and \<^verbatim>\<open>clear\<close> calls.
\<close>

inductive reachable :: "monitor \<Rightarrow> bool" where
  reachable_new: "reachable (new_MySQLMonitor args)"
| reachable_checkWarnings:
    "reachable m \<Longrightarrow> reachable (fst (checkWarnings m connection clock queryText t))"
| reachable_clear: "reachable m \<Longrightarrow> reachable (clear m)"

section \<open>createMonitoringMiddleware\<close>

text \<open>
  \<^verbatim>\<open>args[0]\<close> of a call of \<^verbatim>\<open>connection.query\<close>: the SQL text, or an object whose
  \<^verbatim>\<open>sql\<close> property is the text.
\<close>

datatype query_arg = ArgText string | ArgObject string

fun queryText_of :: "query_arg \<Rightarrow> string" where
  "queryText_of (ArgText s) = s"
| "queryText_of (ArgObject s) = s"

text \<open>
  What the property \<^verbatim>\<open>query\<close> of the connection object holds: the driver's method, or
  the closure \<^verbatim>\<open>monitoredQuery\<close>, which keeps the function it replaced as
  \<^verbatim>\<open>originalQuery\<close>. \<^verbatim>\<open>req.db.connection\<close> is one object: the middleware assigns to
  its property, and \<^verbatim>\<open>monitoredQuery\<close> hands that same object to
  \<^verbatim>\<open>monitor.checkWarnings\<close>.
\<close>

datatype query_fn = DriverQuery | MonitoredQuery query_fn

text \<open>
  The middleware on the slot \<^verbatim>\<open>req.db.connection.query\<close> (\<open>None\<close> when \<^verbatim>\<open>req.db\<close> or
  \<^verbatim>\<open>req.db.connection\<close> is missing); \<^verbatim>\<open>next()\<close> is called in both cases.
\<close>

definition createMonitoringMiddleware :: "query_fn option \<Rightarrow> query_fn option" where
  "createMonitoringMiddleware slot =
     (case slot of None \<Rightarrow> None | Some originalQuery \<Rightarrow> Some (MonitoredQuery originalQuery))"

text \<open>
  The database driver: \<open>answer k a\<close> settles the \<open>k\<close>-th call that reaches the driver,
  \<open>first_of\<close> is the destructuring \<^verbatim>\<open>[warnings] = result\<close>, \<open>elapsed k\<close> is
  \<^verbatim>\<open>Date.now() - startTime\<close> of the wrapper call that started when \<open>k\<close> calls had
  reached the driver, \<open>dates\<close> are the readings of \<^verbatim>\<open>new Date()\<close>.
\<close>

record 'r driver =
  answer :: "nat \<Rightarrow> query_arg \<Rightarrow> js_error + 'r"
  first_of :: "'r \<Rightarrow> raw_warning list option"
  elapsed :: "nat \<Rightarrow> int"
  dates :: "nat \<Rightarrow> string"

record world =
  the_monitor :: monitor
  issued :: nat
  logged :: "log_entry list"

text \<open>
  Calling a function held by the connection. \<open>slot\<close> is what \<^verbatim>\<open>connection.query\<close> holds
  while the call runs; \<open>fuel\<close> bounds the nesting of \<^verbatim>\<open>monitoredQuery\<close> calls, and
  \<open>None\<close> says that the call has not returned within it. \<open>checkWarnings_on\<close> is
  \<^verbatim>\<open>monitor.checkWarnings(req.db.connection, queryText, executionTime)\<close>: its
  \<^verbatim>\<open>connection.query('SHOW WARNINGS')\<close> calls what the slot holds. (\<open>t\<close> is
  \<^verbatim>\<open>executionTime\<close>.)
\<close>

fun call_query ::
    "nat \<Rightarrow> 'r driver \<Rightarrow> query_fn \<Rightarrow> query_fn \<Rightarrow> world \<Rightarrow> query_arg \<Rightarrow>
     ((js_error + 'r) \<times> world) option"
  and checkWarnings_on ::
    "nat \<Rightarrow> 'r driver \<Rightarrow> query_fn \<Rightarrow> world \<Rightarrow> string \<Rightarrow> int \<Rightarrow> world option" where
  "call_query fuel D slot DriverQuery w a =
     Some (answer D (issued w) a, w\<lparr>issued := Suc (issued w)\<rparr>)"
| "call_query 0 D slot (MonitoredQuery originalQuery) w a = None"
| "call_query (Suc fuel) D slot (MonitoredQuery originalQuery) w a =
     (let queryText = queryText_of a;
          t = elapsed D (issued w)
      in case call_query fuel D slot originalQuery w a of
           None \<Rightarrow> None
         | Some (Inr result, w1) \<Rightarrow>
             (case checkWarnings_on fuel D slot w1 queryText t of
                None \<Rightarrow> None
              | Some w2 \<Rightarrow> Some (Inr result, w2))
         | Some (Inl error, w1) \<Rightarrow>
             (case checkWarnings_on fuel D slot w1 queryText t of
                None \<Rightarrow> None
              | Some w2 \<Rightarrow> Some (Inl error, w2)))"
| "checkWarnings_on fuel D slot w queryText t =
     (case call_query fuel D slot slot w (ArgText ''SHOW WARNINGS'') of
        None \<Rightarrow> None
      | Some (r, w1) \<Rightarrow>
          (let (m, out) =
                 checkWarnings (the_monitor w1) (\<lambda>text. map_sum id (first_of D) r) (dates D)
                   queryText t
           in Some (w1\<lparr>the_monitor := m, logged := logged w1 @ out\<rparr>)))"

section \<open>MySQLMonitor.scanTrailingSpaces\<close>

text \<open>
  A row of the \<^verbatim>\<open>SELECT id, `column`, CHAR_LENGTH(...), LENGTH(...)\<close> statements:
  \<^verbatim>\<open>id\<close>, the column's value, \<^verbatim>\<open>char_length\<close>, \<^verbatim>\<open>byte_length\<close>. The value is a
  JavaScript string, kept as the list of its UTF-16 code units.
\<close>

type_synonym js_string = "nat list"

record string_row =
  row_id :: int
  row_value :: js_string
  char_length :: int
  byte_length :: int

record column_ref =
  table :: string
  column :: string

text \<open>An element of \<^verbatim>\<open>rows.map(row => ...)\<close> and an element of \<^verbatim>\<open>results\<close>.\<close>

record reported_row =
  rep_id :: int
  rep_value :: js_string
  charLength :: int
  byteLength :: int
  hasTrailingSpaces :: bool

record trailing_entry = column_ref +
  rowsAffected :: nat
  rows :: "reported_row list"

text \<open>
  \<^verbatim>\<open>String.prototype.trim\<close> strips, at both ends, the code units of white space (tab,
  vertical tab, form feed, space, no-break space, U+FEFF and the space separators U+1680,
  U+2000 to U+200A, U+202F, U+205F, U+3000) and of line terminators (line feed, carriage
  return, U+2028, U+2029).
\<close>

definition js_whitespace :: "nat \<Rightarrow> bool" where
  "js_whitespace u =
     (u \<in> set [0x0009, 0x000B, 0x000C, 0x0020, 0x00A0, 0xFEFF, 0x1680, 0x202F, 0x205F, 0x3000,
               0x000A, 0x000D, 0x2028, 0x2029]
      \<or> (0x2000 \<le> u \<and> u \<le> 0x200A))"

definition js_trim :: "js_string \<Rightarrow> js_string" where
  "js_trim s = rev (dropWhile js_whitespace (rev (dropWhile js_whitespace s)))"

definition report_row :: "string_row \<Rightarrow> reported_row" where
  "report_row row =
     \<lparr> rep_id = row_id row, rep_value = row_value row, charLength = char_length row,
       byteLength = byte_length row,
       hasTrailingSpaces = (row_value row \<noteq> js_trim (row_value row)) \<rparr>"

text \<open>
  The connection of \<^verbatim>\<open>scanTrailingSpaces\<close>, by the table and the column its statement
  is built from: \<open>Inl\<close> when the query rejects, \<open>Inr\<close> the first element of the result.
\<close>

type_synonym row_connection = "string \<Rightarrow> string \<Rightarrow> js_error + string_row list option"

text \<open>The \<^verbatim>\<open>for (const column of columns)\<close> loop, on \<^verbatim>\<open>results\<close> and the logger's calls.\<close>

fun scanTrailingSpaces_loop ::
  "monitor \<Rightarrow> row_connection \<Rightarrow> string \<Rightarrow> string list \<Rightarrow>
   trailing_entry list \<times> log_entry list \<Rightarrow> trailing_entry list \<times> log_entry list" where
  "scanTrailingSpaces_loop m connection tableName [] acc = acc"
| "scanTrailingSpaces_loop m connection tableName (c # rest) (results, out) =
     (case connection tableName c of
        Inl error \<Rightarrow>
          scanTrailingSpaces_loop m connection tableName rest
            (results,
             if truthy (logWarnings (options m))
             then out @ [ErrorScanningColumn c tableName error] else out)
      | Inr None \<Rightarrow> scanTrailingSpaces_loop m connection tableName rest (results, out)
      | Inr (Some rs) \<Rightarrow>
          if length rs > 0
          then scanTrailingSpaces_loop m connection tableName rest
                 (results @
                    [\<lparr> table = tableName, column = c, rowsAffected = length rs,
                       rows = map report_row rs \<rparr>],
                  if truthy (logWarnings (options m))
                  then out @ [WarnTrailingSpaces tableName c (length rs)] else out)
          else scanTrailingSpaces_loop m connection tableName rest (results, out))"

definition scanTrailingSpaces ::
  "monitor \<Rightarrow> row_connection \<Rightarrow> string \<Rightarrow> string list \<Rightarrow>
   trailing_entry list \<times> log_entry list" where
  "scanTrailingSpaces m connection tableName columns =
     scanTrailingSpaces_loop m connection tableName columns ([], [])"

section \<open>scripts/scan-trailing-spaces.js\<close>

text \<open>
  The environment variables the script reads (\<open>None\<close>: not set) and
  \<^verbatim>\<open>process.env.X || default\<close>; the port is kept as text.
\<close>

record process_env =
  DB_HOST :: "string option"
  DB_PORT :: "string option"
  DB_USER :: "string option"
  DB_PASSWORD :: "string option"
  DB_NAME :: "string option"

definition env_or :: "string option \<Rightarrow> string \<Rightarrow> string" where
  "env_or v d = (case v of None \<Rightarrow> d | Some s \<Rightarrow> if s = [] then d else s)"

record db_config =
  host :: string
  port :: string
  user :: string
  password :: string
  database :: string

definition dbConfig :: "process_env \<Rightarrow> db_config" where
  "dbConfig env =
     \<lparr> host = env_or (DB_HOST env) ''localhost'',
       port = env_or (DB_PORT env) ''3306'',
       user = env_or (DB_USER env) ''root'',
       password = env_or (DB_PASSWORD env) [],
       database = env_or (DB_NAME env) [] \<rparr>"

text \<open>
  Texts of numbers. \<open>decimal_text n\<close> is the decimal digits of \<open>n\<close>, \<open>number_text k\<close>
  is what \<^verbatim>\<open>String(k)\<close> gives for an integer \<open>k\<close>.
\<close>

definition digit_char :: "nat \<Rightarrow> char" where
  "digit_char d = ''0123456789'' ! d"

function decimal_text :: "nat \<Rightarrow> string" where
  "decimal_text n =
     (if n < 10 then [digit_char n] else decimal_text (n div 10) @ [digit_char (n mod 10)])"
  by pat_completeness auto
termination
  by (relation "measure (\<lambda>n. n)") auto

declare decimal_text.simps [simp del]

definition number_text :: "int \<Rightarrow> string" where
  "number_text k = (if k < 0 then CHR ''-'' # decimal_text (nat (- k)) else decimal_text (nat k))"

text \<open>
  The number a text converts to, for the texts this script builds: the empty text is 0
  and a text of decimal digits is its decimal value (\<^verbatim>\<open>'032'\<close> is 32). Every other text
  is \<open>None\<close>: of the texts built here, one with a minus sign in front reads as a number
  that is not positive and the others as NaN, and the script only asks whether the number
  is greater than 0.
\<close>

definition digit_value :: "char \<Rightarrow> nat option" where
  "digit_value c = map_of (zip ''0123456789'' [0, 1, 2, 3, 4, 5, 6, 7, 8, 9]) c"

fun text_number_from :: "nat \<Rightarrow> string \<Rightarrow> nat option" where
  "text_number_from a [] = Some a"
| "text_number_from a (c # cs) =
     (case digit_value c of None \<Rightarrow> None | Some d \<Rightarrow> text_number_from (10 * a + d) cs)"

definition text_number :: "string \<Rightarrow> nat option" where
  "text_number s = text_number_from 0 s"

definition text_gt0 :: "string \<Rightarrow> bool" where
  "text_gt0 s = (case text_number s of None \<Rightarrow> False | Some v \<Rightarrow> 0 < v)"

text \<open>
  What the driver hands back for \<^verbatim>\<open>SUM(...)\<close>: \<^verbatim>\<open>null\<close> when the \<^verbatim>\<open>WHERE\<close> clause
  keeps no row; otherwise the sum, a DECIMAL, which mysql2 returns as its text (the
  decimal digits of the sum) on a connection made as the script makes it, and as a number
  on a connection with \<^verbatim>\<open>decimalNumbers\<close> (\<^verbatim>\<open>scanColumn\<close> is exported and takes any
  connection).
\<close>

datatype sum_value = SumNull | SumNumber int | SumDecimal nat

text \<open>\<^verbatim>\<open>result.trailingSpaceCount > 0\<close>\<close>

fun count_gt0 :: "sum_value \<Rightarrow> bool" where
  "count_gt0 SumNull = False"
| "count_gt0 (SumNumber k) = (0 < k)"
| "count_gt0 (SumDecimal n) = text_gt0 (decimal_text n)"

text \<open>
  \<^verbatim>\<open>totalIssues\<close> starts as the number 0. \<^verbatim>\<open>totalIssues += count\<close> adds two numbers
  (\<^verbatim>\<open>null\<close> counts as 0) and, as soon as one side is a text, joins the two texts.
\<close>

datatype js_total = TotalNumber int | TotalText string

fun add_count :: "js_total \<Rightarrow> sum_value \<Rightarrow> js_total" where
  "add_count (TotalNumber a) (SumNumber k) = TotalNumber (a + k)"
| "add_count (TotalNumber a) SumNull = TotalNumber a"
| "add_count (TotalNumber a) (SumDecimal n) = TotalText (number_text a @ decimal_text n)"
| "add_count (TotalText s) (SumNumber k) = TotalText (s @ number_text k)"
| "add_count (TotalText s) SumNull = TotalText (s @ ''null'')"
| "add_count (TotalText s) (SumDecimal n) = TotalText (s @ decimal_text n)"

text \<open>\<^verbatim>\<open>totalIssues > 0\<close>\<close>

fun total_gt0 :: "js_total \<Rightarrow> bool" where
  "total_gt0 (TotalNumber a) = (0 < a)"
| "total_gt0 (TotalText s) = text_gt0 s"

text \<open>
  The row of the aggregate statement of \<^verbatim>\<open>scanColumn\<close>
  (\<^verbatim>\<open>COUNT(*) as total_rows\<close>, \<^verbatim>\<open>SUM(CASE WHEN c != TRIM(c) THEN 1 ELSE 0 END) as
  trailing_space_count\<close>, over the rows \<^verbatim>\<open>WHERE c IS NOT NULL\<close>). The count of rows is
  a number; how the server evaluates the statement is not part of this development.
\<close>

record count_row =
  total_rows :: int
  trailing_space_count :: sum_value

text \<open>
  The database server, by the statement asked: \<^verbatim>\<open>mysql.createConnection\<close> (\<open>Some\<close>: it
  rejects), the base tables of a schema, the string columns of a table of a schema, the
  aggregate row of a table and column, the sample rows of a table and column up to a
  limit, and \<^verbatim>\<open>connection.end()\<close>.
\<close>

record server =
  createConnection :: "db_config \<Rightarrow> js_error option"
  tables_of :: "string \<Rightarrow> js_error + string list"
  columns_of :: "string \<Rightarrow> string \<Rightarrow> js_error + string list"
  count_of :: "string \<Rightarrow> string \<Rightarrow> js_error + count_row list"
  samples_of :: "string \<Rightarrow> string \<Rightarrow> nat \<Rightarrow> js_error + string_row list"
  end_connection :: "js_error option"

definition getStringColumns :: "server \<Rightarrow> db_config \<Rightarrow> string \<Rightarrow> js_error + string list" where
  "getStringColumns S cfg tableName = columns_of S (database cfg) tableName"

definition getAllTables :: "server \<Rightarrow> db_config \<Rightarrow> js_error + string list" where
  "getAllTables S cfg = tables_of S (database cfg)"

record column_scan = column_ref +
  totalRows :: int
  trailingSpaceCount :: sum_value

text \<open>\<^verbatim>\<open>results[0]\<close> of an empty result is \<^verbatim>\<open>undefined\<close>, and reading its property raises.\<close>

definition scanColumn :: "server \<Rightarrow> string \<Rightarrow> string \<Rightarrow> js_error + column_scan" where
  "scanColumn S tableName columnName =
     (case count_of S tableName columnName of
        Inl error \<Rightarrow> Inl error
      | Inr [] \<Rightarrow> Inl (Error ''TypeError'')
      | Inr (r # _) \<Rightarrow>
          Inr \<lparr> table = tableName, column = columnName, totalRows = total_rows r,
                trailingSpaceCount = trailing_space_count r \<rparr>)"

definition getSampleRows ::
  "server \<Rightarrow> string \<Rightarrow> string \<Rightarrow> nat \<Rightarrow> js_error + string_row list" where
  "getSampleRows S tableName columnName limit = samples_of S tableName columnName limit"

text \<open>
  What the script prints, line by line (\<^verbatim>\<open>console.log\<close>, \<^verbatim>\<open>console.error\<close> and the
  spinner), with the values each line interpolates.
\<close>

datatype out_line =
    ErrDbNameRequired | UsageHeader | UsageExample
  | Banner | DatabaseLine string | HostLine string string
  | Connecting | Connected
  | FoundTables nat
  | ScanningTable string
  | ColumnWarning string string sum_value int
  | SampleHeader | SampleLine string_row
  | CompletedTable string
  | SummaryHeader
  | FoundIssues js_total nat | AffectedHeader | AffectedColumn string string sum_value
  | ActionRequired | NoPadNotice | ConsiderUpdate | TrimStatement string
  | NoTrailingSpaces | ReadyForNoPad
  | BlankLine
  | ScanFailed | ErrorDetails | ErrorMessage js_error | ErrorStack js_error
  | FatalError js_error

text \<open>The statement printed for an affected column.\<close>

definition trim_statement :: "column_scan \<Rightarrow> string" where
  "trim_statement r =
     ''  UPDATE `'' @ table r @ ''` SET `'' @ column r @ ''` = TRIM(`'' @ column r @ ''`);''"

text \<open>
  The inner loop \<^verbatim>\<open>for (const column of columns)\<close> on \<^verbatim>\<open>results\<close>,
  \<^verbatim>\<open>totalIssues\<close> and the output. A rejected query leaves the loop with the error and
  the output so far.
\<close>

fun scan_columns ::
  "server \<Rightarrow> string \<Rightarrow> string list \<Rightarrow> column_scan list \<times> js_total \<times> out_line list \<Rightarrow>
   (js_error \<times> out_line list) + (column_scan list \<times> js_total \<times> out_line list)" where
  "scan_columns S tbl [] acc = Inr acc"
| "scan_columns S tbl (c # rest) (results, totalIssues, out) =
     (case scanColumn S tbl c of
        Inl error \<Rightarrow> Inl (error, out)
      | Inr result \<Rightarrow>
          if count_gt0 (trailingSpaceCount result)
          then (let out1 = out @ [ColumnWarning tbl c (trailingSpaceCount result)
                                    (totalRows result)]
                in case getSampleRows S tbl c 5 of
                     Inl error \<Rightarrow> Inl (error, out1)
                   | Inr samples \<Rightarrow>
                       scan_columns S tbl rest
                         (results @ [result], add_count totalIssues (trailingSpaceCount result),
                          if length samples > 0
                          then out1 @ [SampleHeader] @ map SampleLine samples
                          else out1))
          else scan_columns S tbl rest (results, totalIssues, out))"

text \<open>The outer loop \<^verbatim>\<open>for (const table of tables)\<close>.\<close>

fun scan_tables ::
  "server \<Rightarrow> db_config \<Rightarrow> string list \<Rightarrow>
   column_scan list \<times> js_total \<times> out_line list \<Rightarrow>
   (js_error \<times> out_line list) + (column_scan list \<times> js_total \<times> out_line list)" where
  "scan_tables S cfg [] acc = Inr acc"
| "scan_tables S cfg (tbl # rest) (results, totalIssues, out) =
     (case getStringColumns S cfg tbl of
        Inl error \<Rightarrow> Inl (error, out @ [ScanningTable tbl])
      | Inr columns \<Rightarrow>
          (case scan_columns S tbl columns (results, totalIssues, out @ [ScanningTable tbl]) of
             Inl failure \<Rightarrow> Inl failure
           | Inr (results1, totalIssues1, out1) \<Rightarrow>
               scan_tables S cfg rest (results1, totalIssues1, out1 @ [CompletedTable tbl])))"

text \<open>The lines from \<^verbatim>\<open>=== Scan Summary ===\<close> on.\<close>

definition summary :: "column_scan list \<Rightarrow> js_total \<Rightarrow> out_line list" where
  "summary results totalIssues =
     [SummaryHeader] @
     (if total_gt0 totalIssues
      then [FoundIssues totalIssues (length results), AffectedHeader] @
           map (\<lambda>r. AffectedColumn (table r) (column r) (trailingSpaceCount r)) results @
           [ActionRequired, NoPadNotice, ConsiderUpdate] @
           map (\<lambda>r. TrimStatement (trim_statement r)) results
      else [NoTrailingSpaces, ReadyForNoPad]) @
     [BlankLine]"

text \<open>The \<^verbatim>\<open>catch\<close> block of \<^verbatim>\<open>scanDatabase\<close>, before its \<^verbatim>\<open>process.exit(1)\<close>.\<close>

definition failure_lines :: "js_error \<Rightarrow> out_line list" where
  "failure_lines error = [ScanFailed, ErrorDetails, ErrorMessage error, ErrorStack error]"

text \<open>
  How a run of \<^verbatim>\<open>scanDatabase\<close> ends: \<^verbatim>\<open>process.exit(n)\<close> was called (the process
  stops there, and the \<^verbatim>\<open>finally\<close> block does not run), its promise resolves, or its
  promise rejects (only \<^verbatim>\<open>connection.end()\<close> in the \<^verbatim>\<open>finally\<close> block can do that).
\<close>

datatype completion = ProcessExit nat | Resolved | Rejected js_error

definition scanDatabase :: "process_env \<Rightarrow> server \<Rightarrow> completion \<times> out_line list" where
  "scanDatabase env S =
     (let cfg = dbConfig env
      in if database cfg = []
         then (ProcessExit 1, [ErrDbNameRequired, UsageHeader, UsageExample])
         else
           (let out0 = [Banner, DatabaseLine (database cfg), HostLine (host cfg) (port cfg),
                        Connecting]
            in case createConnection S cfg of
                 Some error \<Rightarrow> (ProcessExit 1, out0 @ failure_lines error)
               | None \<Rightarrow>
                   (case getAllTables S cfg of
                      Inl error \<Rightarrow> (ProcessExit 1, out0 @ [Connected] @ failure_lines error)
                    | Inr tables \<Rightarrow>
                        (case scan_tables S cfg tables
                                ([], TotalNumber 0,
                                 out0 @ [Connected, FoundTables (length tables)]) of
                           Inl (error, out) \<Rightarrow> (ProcessExit 1, out @ failure_lines error)
                         | Inr (results, totalIssues, out) \<Rightarrow>
                             (case end_connection S of
                                None \<Rightarrow> (Resolved, out @ summary results totalIssues)
                              | Some error \<Rightarrow>
                                  (Rejected error, out @ summary results totalIssues))))))"

text \<open>
  The script run as a program: \<^verbatim>\<open>scanDatabase().catch(...)\<close>, and the exit code of the
  process (0 when nothing called \<^verbatim>\<open>process.exit\<close> and nothing set an exit code).
\<close>

definition run_scanner :: "process_env \<Rightarrow> server \<Rightarrow> nat \<times> out_line list" where
  "run_scanner env S =
     (case scanDatabase env S of
        (ProcessExit n, out) \<Rightarrow> (n, out)
      | (Resolved, out) \<Rightarrow> (0, out)
      | (Rejected error, out) \<Rightarrow> (1, out @ [FatalError error]))"

section \<open>Reference notions and sample inputs\<close>

text \<open>
  Two characters that are equal up to the case of an ASCII letter, by their codes: the
  upper-case letters are the codes 65 to 90, and the lower-case form of a letter is 32
  above its upper-case form.
\<close>

definition is_upper :: "char \<Rightarrow> bool" where
  "is_upper c = (65 \<le> (of_char c :: nat) \<and> (of_char c :: nat) \<le> 90)"

definition same_ignoring_case :: "char \<Rightarrow> char \<Rightarrow> bool" where
  "same_ignoring_case a b =
     (a = b
      \<or> (is_upper a \<and> (of_char b :: nat) = of_char a + 32)
      \<or> (is_upper b \<and> (of_char a :: nat) = of_char b + 32))"

text \<open>
  The scan results of every column of a table, and of every string column of every table
  of the schema, in the order of the scan (a pair whose query fails has none).
\<close>

definition column_scans :: "server \<Rightarrow> string \<Rightarrow> string list \<Rightarrow> column_scan list" where
  "column_scans S tbl columns =
     concat (map (\<lambda>c. case scanColumn S tbl c of Inl error \<Rightarrow> [] | Inr r \<Rightarrow> [r]) columns)"

definition schema_scans :: "server \<Rightarrow> db_config \<Rightarrow> string list \<Rightarrow> column_scan list" where
  "schema_scans S cfg tables =
     concat (map (\<lambda>tbl. case getStringColumns S cfg tbl of
                           Inl error \<Rightarrow> []
                         | Inr columns \<Rightarrow> column_scans S tbl columns) tables)"

text \<open>
  What one column adds to the result of \<^verbatim>\<open>scanTrailingSpaces\<close>, and what it has the
  logger told.
\<close>

definition column_entry :: "row_connection \<Rightarrow> string \<Rightarrow> string \<Rightarrow> trailing_entry list" where
  "column_entry connection tableName c =
     (case connection tableName c of
        Inr (Some rs) \<Rightarrow>
          if length rs > 0
          then [\<lparr> table = tableName, column = c, rowsAffected = length rs,
                  rows = map report_row rs \<rparr>]
          else []
      | _ \<Rightarrow> [])"

definition column_log :: "monitor \<Rightarrow> row_connection \<Rightarrow> string \<Rightarrow> string \<Rightarrow> log_entry list" where
  "column_log m connection tableName c =
     (if truthy (logWarnings (options m))
      then (case connection tableName c of
              Inl error \<Rightarrow> [ErrorScanningColumn c tableName error]
            | Inr None \<Rightarrow> []
            | Inr (Some rs) \<Rightarrow>
                if length rs > 0 then [WarnTrailingSpaces tableName c (length rs)] else [])
      else [])"



text \<open>A monitor built with no options, and connections for it.\<close>

definition no_args :: monitor_args where
  "no_args =
     \<lparr> arg_logWarnings = None, arg_trackSlowQueries = None, arg_slowQueryThreshold = None \<rparr>"

text \<open>
  The options \<^verbatim>\<open>{ slowQueryThreshold: undefined }\<close> (as an options object filled from
  a configuration value that is not set).
\<close>

definition undefined_threshold_args :: monitor_args where
  "undefined_threshold_args =
     \<lparr> arg_logWarnings = None, arg_trackSlowQueries = None,
       arg_slowQueryThreshold = Some JUndefined \<rparr>"

definition lost_connection :: "raw_warning connection" where
  "lost_connection text = Inl (Error ''Connection lost'')"

definition quiet_connection :: "raw_warning connection" where
  "quiet_connection text = Inr (Some [])"

definition epoch :: "nat \<Rightarrow> string" where
  "epoch i = ''1970-01-01T00:00:00.000Z''"

definition auth_warning :: raw_warning where
  "auth_warning =
     \<lparr> Level = ''Warning'', Code = 1287,
       Message = ''The 'authentication_string' column is deprecated'' \<rparr>"

definition shouting_warning :: raw_warning where
  "shouting_warning =
     \<lparr> Level = ''Warning'', Code = 1287,
       Message = ''Plugin 'mysql_native_password' IS DEPRECATED and Will Be Removed'' \<rparr>"

definition truncation_warning :: raw_warning where
  "truncation_warning =
     \<lparr> Level = ''Warning'', Code = 1265,
       Message = ''Data truncated for column 'name' at row 1'' \<rparr>"

definition auth_connection :: "raw_warning connection" where
  "auth_connection text = Inr (Some [auth_warning])"

definition two_slow_queries :: monitor where
  "two_slow_queries =
     (new_MySQLMonitor no_args)
       \<lparr>slowQueries :=
          [\<lparr> timestamp = epoch 0, query = ''SELECT 1'', executionTime = 1500 \<rparr>,
           \<lparr> timestamp = epoch 0, query = ''SELECT 2'', executionTime = 2000 \<rparr>]\<rparr>"

definition three_slow_queries :: monitor where
  "three_slow_queries =
     (new_MySQLMonitor no_args)
       \<lparr>slowQueries :=
          [\<lparr> timestamp = epoch 0, query = ''SELECT 1'', executionTime = 1001 \<rparr>,
           \<lparr> timestamp = epoch 0, query = ''SELECT 2'', executionTime = 1001 \<rparr>,
           \<lparr> timestamp = epoch 0, query = ''SELECT 3'', executionTime = 1002 \<rparr>]\<rparr>"

text \<open>A driver that answers every statement with no rows.\<close>

definition empty_driver :: "(raw_warning list) driver" where
  "empty_driver =
     \<lparr> answer = (\<lambda>k a. Inr []), first_of = Some, elapsed = (\<lambda>k. 5), dates = epoch \<rparr>"

definition fresh_world :: world where
  "fresh_world = \<lparr> the_monitor = new_MySQLMonitor no_args, issued = 0, logged = [] \<rparr>"

text \<open>
  A schema \<^verbatim>\<open>shop\<close> with tables \<^verbatim>\<open>users\<close> (columns \<^verbatim>\<open>name\<close>, \<^verbatim>\<open>email\<close>) and
  \<^verbatim>\<open>orders\<close> (column \<^verbatim>\<open>note\<close>): 3 of the 10 \<^verbatim>\<open>email\<close> values and 2 of the 5
  \<^verbatim>\<open>note\<close> values differ from their trimmed value, no \<^verbatim>\<open>name\<close> value does. The
  sums arrive as the driver of the script hands them back, as texts.
\<close>

definition shop_env :: process_env where
  "shop_env =
     \<lparr> DB_HOST = None, DB_PORT = None, DB_USER = None, DB_PASSWORD = None,
       DB_NAME = Some ''shop'' \<rparr>"

definition shop_counts :: "string \<Rightarrow> string \<Rightarrow> js_error + count_row list" where
  "shop_counts tbl c =
     (if tbl = ''users'' \<and> c = ''email''
      then Inr [\<lparr> total_rows = 10, trailing_space_count = SumDecimal 3 \<rparr>]
      else if tbl = ''orders'' \<and> c = ''note''
      then Inr [\<lparr> total_rows = 5, trailing_space_count = SumDecimal 2 \<rparr>]
      else Inr [\<lparr> total_rows = 10, trailing_space_count = SumDecimal 0 \<rparr>])"

definition shop_server :: server where
  "shop_server =
     \<lparr> createConnection = (\<lambda>cfg. None),
       tables_of = (\<lambda>db. Inr [''users'', ''orders'']),
       columns_of = (\<lambda>db tbl. if tbl = ''users'' then Inr [''name'', ''email'']
                                else Inr [''note'']),
       count_of = shop_counts,
       samples_of = (\<lambda>tbl c limit. Inr []),
       end_connection = None \<rparr>"

text \<open>The same server when the aggregate query on \<^verbatim>\<open>users.name\<close> is denied.\<close>

definition denied_server :: server where
  "denied_server =
     shop_server
       \<lparr>count_of := (\<lambda>tbl c. if tbl = ''users'' \<and> c = ''name''
                               then Inl (Error ''SELECT command denied'')
                               else shop_counts tbl c)\<rparr>"

text \<open>
  Connections for \<^verbatim>\<open>scanTrailingSpaces\<close>: one \<^verbatim>\<open>email\<close> value, \<^verbatim>\<open>a@b.c\<close> followed by
  a space, has a trailing space; the query on \<^verbatim>\<open>name\<close> finds no row, or is denied.
\<close>

definition padded_email :: string_row where
  "padded_email =
     \<lparr> row_id = 7, row_value = [97, 64, 98, 46, 99, 32], char_length = 6, byte_length = 6 \<rparr>"

definition clean_name_connection :: row_connection where
  "clean_name_connection tbl c = (if c = ''email'' then Inr (Some [padded_email]) else Inr (Some []))"

definition denied_name_connection :: row_connection where
  "denied_name_connection tbl c =
     (if c = ''name'' then Inl (Error ''SELECT command denied'')
      else clean_name_connection tbl c)"

section \<open>The classifier\<close>

lemma startsWith_iff: "startsWith s k \<longleftrightarrow> (\<exists>ys. s = k @ ys)"
  by (induction s k rule: startsWith.induct) auto

lemma js_includes_iff: "js_includes s k \<longleftrightarrow> (\<exists>xs ys. s = xs @ k @ ys)"
proof (induction s)
  case Nil
  then show ?case by (simp add: startsWith_iff)
next
  case (Cons c cs)
  show ?case
  proof
    assume "js_includes (c # cs) k"
    then consider "startsWith (c # cs) k" | "js_includes cs k" by auto
    then show "\<exists>xs ys. c # cs = xs @ k @ ys"
    proof cases
      case 1
      then obtain ys where "c # cs = k @ ys" by (auto simp: startsWith_iff)
      then have "c # cs = [] @ k @ ys" by simp
      then show ?thesis by blast
    next
      case 2
      then obtain xs ys where "cs = xs @ k @ ys" using Cons.IH by blast
      then have "c # cs = (c # xs) @ k @ ys" by simp
      then show ?thesis by blast
    qed
  next
    assume "\<exists>xs ys. c # cs = xs @ k @ ys"
    then obtain xs ys where e: "c # cs = xs @ k @ ys" by blast
    show "js_includes (c # cs) k"
    proof (cases xs)
      case Nil
      with e have "startsWith (c # cs) k" by (auto simp: startsWith_iff)
      then show ?thesis by simp
    next
      case (Cons x xs')
      with e have "cs = xs' @ k @ ys" by simp
      then have "js_includes cs k" using Cons.IH by blast
      then show ?thesis by simp
    qed
  qed
qed

lemma toLowerCase_append: "toLowerCase (a @ b) = toLowerCase a @ toLowerCase b"
  by (simp add: toLowerCase_def)

text \<open>
  A lower-cased message contains \<open>k\<close> exactly when the message has a piece that
  lower-cases to \<open>k\<close>.
\<close>

lemma lower_contains_iff:
  "(\<exists>xs ys. toLowerCase m = xs @ k @ ys)
     \<longleftrightarrow> (\<exists>xs s ys. m = xs @ s @ ys \<and> toLowerCase s = k)"
proof
  assume "\<exists>xs ys. toLowerCase m = xs @ k @ ys"
  then obtain xs ys where "map lower_char m = xs @ (k @ ys)"
    by (auto simp: toLowerCase_def)
  then obtain a r where m: "m = a @ r" and "map lower_char r = k @ ys"
    by (metis map_eq_append_conv)
  then obtain s b where "r = s @ b" and "map lower_char s = k"
    by (metis map_eq_append_conv)
  with m show "\<exists>xs s ys. m = xs @ s @ ys \<and> toLowerCase s = k"
    by (auto simp: toLowerCase_def)
next
  assume "\<exists>xs s ys. m = xs @ s @ ys \<and> toLowerCase s = k"
  then obtain xs s ys where "m = xs @ s @ ys" and "toLowerCase s = k" by blast
  then have "toLowerCase m = toLowerCase xs @ k @ toLowerCase ys"
    by (simp add: toLowerCase_append)
  then show "\<exists>xs ys. toLowerCase m = xs @ k @ ys" by blast
qed

lemma keywords_lower: "k \<in> set deprecationKeywords \<Longrightarrow> toLowerCase k = k"
  by (auto simp: deprecationKeywords_def toLowerCase_def lower_char_def)

text \<open>
  The lower-casing of the classifier against the codes of the characters: it moves the
  codes 65 to 90 up by 32 and keeps every other character.
\<close>

lemma upper_in_table:
  assumes "is_upper c"
  shows "c \<in> set ''ABCDEFGHIJKLMNOPQRSTUVWXYZ''"
proof -
  define n where "n = (of_char c :: nat)"
  have c: "c = char_of n" by (simp add: n_def)
  from assms have "65 \<le> n" "n \<le> 90" by (simp_all add: is_upper_def n_def)
  then have "n \<in> {65, 66, 67, 68, 69, 70, 71, 72, 73, 74, 75, 76, 77, 78, 79, 80, 81, 82,
      83, 84, 85, 86, 87, 88, 89, 90}"
    by (simp add: numeral_eq_Suc) presburger
  then show ?thesis unfolding c
    by (elim insertE emptyE) (simp_all add: char_of_def bit_Suc_0_iff)
qed

lemma lower_char_table:
  "c \<in> set ''ABCDEFGHIJKLMNOPQRSTUVWXYZ'' \<Longrightarrow>
     is_upper c \<and> (of_char (lower_char c) :: nat) = of_char c + 32"
  by (elim insertE emptyE | simp only: set_simps list.set)+
     (simp_all add: lower_char_def is_upper_def)

lemma lower_char_code:
  "(of_char (lower_char c) :: nat) = (if is_upper c then of_char c + 32 else of_char c)"
proof (cases "c \<in> set ''ABCDEFGHIJKLMNOPQRSTUVWXYZ''")
  case True
  from lower_char_table [OF this] show ?thesis by simp
next
  case False
  then have "\<not> is_upper c" using upper_in_table by blast
  moreover from False have "lower_char c = c"
    by (simp add: lower_char_def)
  ultimately show ?thesis by simp
qed

lemma fold_code_eq_iff:
  fixes x y :: nat
  shows "(if 65 \<le> x \<and> x \<le> 90 then x + 32 else x) = (if 65 \<le> y \<and> y \<le> 90 then y + 32 else y)
     \<longleftrightarrow> (x = y \<or> (65 \<le> x \<and> x \<le> 90 \<and> y = x + 32) \<or> (65 \<le> y \<and> y \<le> 90 \<and> x = y + 32))"
  by presburger

lemma lower_char_eq_iff: "lower_char a = lower_char b \<longleftrightarrow> same_ignoring_case a b"
proof -
  define x y where "x = (of_char a :: nat)" and "y = (of_char b :: nat)"
  have ab: "a = b \<longleftrightarrow> x = y" unfolding x_def y_def by simp
  have "lower_char a = lower_char b
      \<longleftrightarrow> (of_char (lower_char a) :: nat) = of_char (lower_char b)"
    by simp
  also have "\<dots> \<longleftrightarrow> (if 65 \<le> x \<and> x \<le> 90 then x + 32 else x)
                   = (if 65 \<le> y \<and> y \<le> 90 then y + 32 else y)"
    unfolding lower_char_code is_upper_def x_def y_def ..
  also have "\<dots> \<longleftrightarrow> (x = y \<or> (65 \<le> x \<and> x \<le> 90 \<and> y = x + 32)
                   \<or> (65 \<le> y \<and> y \<le> 90 \<and> x = y + 32))"
    by (rule fold_code_eq_iff)
  also have "\<dots> \<longleftrightarrow> same_ignoring_case a b"
    unfolding same_ignoring_case_def is_upper_def ab x_def y_def by blast
  finally show ?thesis .
qed

lemma toLowerCase_eq_iff:
  "toLowerCase s = toLowerCase k \<longleftrightarrow> list_all2 same_ignoring_case s k"
proof -
  have "toLowerCase s = toLowerCase k
      \<longleftrightarrow> list_all2 (=) (map lower_char s) (map lower_char k)"
    by (simp add: toLowerCase_def list.rel_eq)
  also have "\<dots> \<longleftrightarrow> list_all2 (\<lambda>a b. lower_char a = lower_char b) s k"
    by (simp add: list_all2_map1 list_all2_map2)
  also have "\<dots> \<longleftrightarrow> list_all2 same_ignoring_case s k"
    by (simp add: lower_char_eq_iff)
  finally show ?thesis .
qed

text \<open>
  Claim C2. \<^verbatim>\<open>isDeprecationWarning\<close> is true exactly when some piece of the message
  equals, character by character and up to the case of its letters, one of the five
  keywords \<^verbatim>\<open>deprecated\<close>, \<^verbatim>\<open>will be removed\<close>, \<^verbatim>\<open>is obsolete\<close>,
  \<^verbatim>\<open>no longer supported\<close>, \<^verbatim>\<open>authentication_string\<close>; it is false for every other
  message.
\<close>

theorem isDeprecationWarning_iff_keyword:
  "isDeprecationWarning warning \<longleftrightarrow>
     (\<exists>keyword xs s ys.
        keyword \<in> {''deprecated'', ''will be removed'', ''is obsolete'',
                    ''no longer supported'', ''authentication_string''}
        \<and> Message warning = xs @ s @ ys \<and> list_all2 same_ignoring_case s keyword)"
proof -
  have "isDeprecationWarning warning \<longleftrightarrow>
        (\<exists>keyword \<in> set deprecationKeywords.
           \<exists>xs ys. toLowerCase (Message warning) = xs @ keyword @ ys)"
    by (simp add: isDeprecationWarning_def list_ex_iff js_includes_iff)
  also have "\<dots> \<longleftrightarrow>
        (\<exists>keyword \<in> set deprecationKeywords.
           \<exists>xs s ys. Message warning = xs @ s @ ys \<and> toLowerCase s = keyword)"
    by (simp only: lower_contains_iff)
  also have "\<dots> \<longleftrightarrow>
        (\<exists>keyword \<in> set deprecationKeywords.
           \<exists>xs s ys. Message warning = xs @ s @ ys \<and> toLowerCase s = toLowerCase keyword)"
    by (auto simp: keywords_lower)
  also have "\<dots> \<longleftrightarrow>
        (\<exists>keyword \<in> set deprecationKeywords.
           \<exists>xs s ys. Message warning = xs @ s @ ys \<and> list_all2 same_ignoring_case s keyword)"
    by (simp only: toLowerCase_eq_iff)
  finally show ?thesis
    by (simp add: deprecationKeywords_def Bex_def)
qed

lemma auth_warning_is_deprecation: "isDeprecationWarning auth_warning"
  by (simp add: auth_warning_def isDeprecationWarning_def toLowerCase_def lower_char_def
      deprecationKeywords_def)

lemma shouting_warning_is_deprecation: "isDeprecationWarning shouting_warning"
  by (simp add: shouting_warning_def isDeprecationWarning_def toLowerCase_def lower_char_def
      deprecationKeywords_def)

lemma truncation_warning_is_generic: "\<not> isDeprecationWarning truncation_warning"
  by (simp add: truncation_warning_def isDeprecationWarning_def toLowerCase_def lower_char_def
      deprecationKeywords_def)

lemma shouting_piece:
  "Message shouting_warning
     = ''Plugin 'mysql_native_password' IS '' @ ''DEPRECATED'' @ '' and Will Be Removed''
   \<and> list_all2 same_ignoring_case ''DEPRECATED'' ''deprecated''
   \<and> \<not> js_includes (Message shouting_warning) ''deprecated''"
  by (simp add: shouting_warning_def same_ignoring_case_def is_upper_def)

theorem isDeprecationWarning_iff_keyword_witness:
  "isDeprecationWarning shouting_warning
   \<and> Message shouting_warning
       = ''Plugin 'mysql_native_password' IS '' @ ''DEPRECATED'' @ '' and Will Be Removed''
   \<and> list_all2 same_ignoring_case ''DEPRECATED'' ''deprecated''
   \<and> \<not> js_includes (Message shouting_warning) ''deprecated''
   \<and> isDeprecationWarning auth_warning
   \<and> \<not> isDeprecationWarning truncation_warning
   \<and> \<not> (\<exists>keyword xs s ys.
        keyword \<in> {''deprecated'', ''will be removed'', ''is obsolete'',
                    ''no longer supported'', ''authentication_string''}
        \<and> Message truncation_warning = xs @ s @ ys
        \<and> list_all2 same_ignoring_case s keyword)"
proof -
  have "isDeprecationWarning shouting_warning"
    using isDeprecationWarning_iff_keyword [of shouting_warning] shouting_piece by blast
  moreover have "\<not> (\<exists>keyword xs s ys.
        keyword \<in> {''deprecated'', ''will be removed'', ''is obsolete'',
                    ''no longer supported'', ''authentication_string''}
        \<and> Message truncation_warning = xs @ s @ ys
        \<and> list_all2 same_ignoring_case s keyword)"
    using isDeprecationWarning_iff_keyword [of truncation_warning]
      truncation_warning_is_generic by blast
  ultimately show ?thesis
    using shouting_piece auth_warning_is_deprecation truncation_warning_is_generic by blast
qed

section \<open>The constructor\<close>

text \<open>
  The threshold the constructor leaves in the options: 1000 when the options have no
  \<^verbatim>\<open>slowQueryThreshold\<close> key, and otherwise the value of the key, whatever it is (the
  spread, which comes after \<^verbatim>\<open>|| 1000\<close>, puts it back).
\<close>

lemma slowQueryThreshold_of_args:
  "slowQueryThreshold (options (new_MySQLMonitor args)) =
     (case arg_slowQueryThreshold args of None \<Rightarrow> JNum 1000 | Some v \<Rightarrow> v)"
  by (simp add: new_MySQLMonitor_def spread_def read_key_def js_or_def split: option.splits)

text \<open>
  Claim C10 fails on the code. For the options \<^verbatim>\<open>{ slowQueryThreshold: undefined }\<close> no
  threshold is supplied and \<^verbatim>\<open>options.slowQueryThreshold || 1000\<close> is 1000, yet the
  threshold of the monitor is \<^verbatim>\<open>undefined\<close>, not 1000: with tracking on, a query of
  60000 ms is not recorded as slow.
\<close>

theorem undefined_threshold_defeats_default:
  "read_key (arg_slowQueryThreshold undefined_threshold_args) = JUndefined
   \<and> js_or (read_key (arg_slowQueryThreshold undefined_threshold_args)) (JNum 1000) = JNum 1000
   \<and> slowQueryThreshold (options (new_MySQLMonitor undefined_threshold_args)) = JUndefined
   \<and> truthy (trackSlowQueries (options (new_MySQLMonitor undefined_threshold_args)))
   \<and> slowQueries
         (fst (checkWarnings (new_MySQLMonitor undefined_threshold_args) quiet_connection epoch
                 ''SELECT SLEEP(60)'' 60000))
       = []"
  by (simp add: checkWarnings_def quiet_connection_def new_MySQLMonitor_def
      undefined_threshold_args_def spread_def read_key_def js_or_def)

theorem undefined_threshold_defeats_default_witness:
  "arg_slowQueryThreshold undefined_threshold_args = Some JUndefined
   \<and> slowQueryThreshold (options (new_MySQLMonitor undefined_threshold_args)) \<noteq> JNum 1000"
  using undefined_threshold_defeats_default
  by (simp add: undefined_threshold_args_def)

section \<open>The statistics\<close>

lemma bit_length_bounds: "0 < n \<Longrightarrow> 2 ^ (bit_length n - 1) \<le> n \<and> n < 2 ^ bit_length n"
proof (induction n rule: bit_length.induct)
  case (1 n)
  show ?case
  proof (cases "n div 2 = 0")
    case True
    with "1.prems" have "n = 1" by (simp add: div_eq_0_iff)
    then show ?thesis by (simp add: bit_length.simps)
  next
    case False
    with "1.IH" "1.prems" have IH: "2 ^ (bit_length (n div 2) - 1) \<le> n div 2"
      "n div 2 < 2 ^ bit_length (n div 2)" by auto
    have pos: "0 < bit_length (n div 2)" using False by (simp add: bit_length.simps)
    have bl: "bit_length n = Suc (bit_length (n div 2))"
      using "1.prems" by (subst bit_length.simps) simp
    have "2 ^ (bit_length n - 1) = 2 * 2 ^ (bit_length (n div 2) - 1)"
      using pos bl by (cases "bit_length (n div 2)") auto
    also have "\<dots> \<le> 2 * (n div 2)" using IH(1) by simp
    also have "\<dots> \<le> n" by simp
    finally have lo: "2 ^ (bit_length n - 1) \<le> n" .
    have "n < 2 * (n div 2) + 2" by presburger
    also have "\<dots> \<le> 2 * 2 ^ bit_length (n div 2)" using IH(2) by simp
    finally have "n < 2 ^ bit_length n" by (simp add: bl)
    with lo show ?thesis by simp
  qed
qed

lemma bit_length_le:
  assumes "n \<le> 2 ^ k" and "0 < n"
  shows "bit_length n \<le> Suc k"
proof (rule ccontr)
  assume "\<not> bit_length n \<le> Suc k"
  then have "Suc k \<le> bit_length n - 1" by simp
  then have "(2::nat) ^ Suc k \<le> 2 ^ (bit_length n - 1)"
    by (intro power_increasing) simp_all
  also have "\<dots> \<le> n" using bit_length_bounds [OF assms(2)] by simp
  finally have "(2::nat) ^ Suc k \<le> n" .
  moreover have "(0::nat) < 2 ^ k" by simp
  ultimately show False using assms(1) by simp
qed

lemma bit_length_top:
  assumes "n \<le> 2 ^ k" and "bit_length n = Suc k"
  shows "n = 2 ^ k"
proof -
  have "0 < n" using assms(2) by (subst (asm) bit_length.simps) (simp split: if_splits)
  from bit_length_bounds [OF this] assms(2) have "2 ^ k \<le> n" by simp
  with assms(1) show ?thesis by simp
qed

lemma round_half_even_of_int: "round_half_even (of_int j) = j"
  by (simp add: round_half_even_def)

lemma round_half_even_near: "\<bar>of_int (round_half_even y) - y\<bar> \<le> 1 / 2"
proof -
  define f where "f = \<lfloor>y\<rfloor>"
  have b: "of_int f \<le> y" "y < of_int f + 1"
    unfolding f_def by linarith+
  have r: "round_half_even y = f \<or> round_half_even y = f + 1"
    by (auto simp: round_half_even_def Let_def f_def)
  consider "y - of_int f < 1 / 2" | "1 / 2 < y - of_int f" | "y - of_int f = 1 / 2" by linarith
  then show ?thesis
  proof cases
    case 1
    then have "round_half_even y = f" by (simp add: round_half_even_def Let_def f_def)
    with 1 b show ?thesis by (simp add: abs_le_iff)
  next
    case 2
    then have "round_half_even y = f + 1" by (simp add: round_half_even_def Let_def f_def)
    with 2 b show ?thesis by (simp add: abs_le_iff)
  next
    case 3
    with r show ?thesis by (auto simp: abs_le_iff)
  qed
qed

lemma pow2_pos: "0 < pow2 e"
  by (simp add: pow2_def)

lemma pow2_nat: "pow2 (int n) = 2 ^ n"
  by (simp add: pow2_def)

lemma pow2_shift_nat: "pow2 e = pow2 (e - int k) * 2 ^ k"
proof (cases "int k \<le> e")
  case True
  then have "nat e = nat (e - int k) + k" by simp
  then have "(2::rat) ^ nat e = 2 ^ nat (e - int k) * 2 ^ k"
    by (simp only: power_add)
  with True show ?thesis by (simp add: pow2_def)
next
  case False
  show ?thesis
  proof (cases "0 \<le> e")
    case True
    with False have "k = nat e + nat (int k - e)" by simp
    then have "(2::rat) ^ k = 2 ^ nat e * 2 ^ nat (int k - e)"
      by (metis power_add)
    with True False show ?thesis by (simp add: pow2_def)
  next
    case False
    then have "nat (int k - e) = nat (- e) + k" by simp
    then have "(2::rat) ^ nat (int k - e) = 2 ^ nat (- e) * 2 ^ k"
      by (simp only: power_add)
    with False show ?thesis by (simp add: pow2_def)
  qed
qed

lemma pow2_shift: "pow2 e = pow2 (e - 52) * 2 ^ 52"
  using pow2_shift_nat [of e 52] by simp

lemma binary_exponent_lower: "0 < x \<Longrightarrow> pow2 (binary_exponent x) \<le> x"
proof (cases "1 \<le> x")
  case True
  define n where "n = nat \<lfloor>x\<rfloor>"
  from True have n: "0 < n" by (simp add: n_def)
  from bit_length_bounds [OF n] have "2 ^ (bit_length n - 1) \<le> n" by simp
  then have "(of_nat (2 ^ (bit_length n - 1)) :: rat) \<le> of_nat n"
    by (simp only: of_nat_le_iff)
  then have "(2 :: rat) ^ (bit_length n - 1) \<le> of_nat n" by simp
  also have "(of_nat n :: rat) = of_int \<lfloor>x\<rfloor>" using True by (simp add: n_def)
  also have "\<dots> \<le> x" by simp
  finally have a: "(2 :: rat) ^ (bit_length n - 1) \<le> x" .
  have pos: "0 < bit_length n" using n by (subst bit_length.simps) simp
  then have "binary_exponent x = int (bit_length n - 1)"
    using True by (simp add: binary_exponent_def n_def of_nat_diff)
  with a show ?thesis by (simp add: pow2_nat)
next
  case False
  assume x: "0 < x"
  define z where "z = \<lceil>1 / x\<rceil>"
  define m where "m = nat (z - 1)"
  from False x have "1 < 1 / x" by simp
  then have c: "2 \<le> z" unfolding z_def by linarith
  then have m: "0 < m" by (simp add: m_def)
  have im: "int m = z - 1" using c by (simp add: m_def)
  from bit_length_bounds [OF m] have "m < 2 ^ bit_length m" by simp
  then have "int m < int (2 ^ bit_length m)" by (simp only: of_nat_less_iff)
  with im have "z \<le> 2 ^ bit_length m" by simp
  then have "1 / x \<le> of_int (2 ^ bit_length m)" unfolding z_def by (simp only: ceiling_le_iff)
  then have "1 / x \<le> 2 ^ bit_length m" by simp
  then have "1 \<le> 2 ^ bit_length m * x" using x by (simp add: field_simps)
  then have le: "1 / 2 ^ bit_length m \<le> x" by (simp add: field_simps)
  have pos: "0 < bit_length m" using m by (subst bit_length.simps) simp
  have "binary_exponent x = - int (bit_length m)"
    using False by (simp add: binary_exponent_def m_def z_def)
  with pos have "pow2 (binary_exponent x) = 1 / 2 ^ bit_length m"
    by (simp add: pow2_def)
  with le show ?thesis by simp
qed

lemma round_double_near: "\<bar>round_double x - x\<bar> \<le> \<bar>x\<bar> / 2 ^ 53"
proof (cases "x = 0")
  case True
  then show ?thesis by (simp add: round_double_def)
next
  case False
  define e where "e = binary_exponent \<bar>x\<bar>"
  define q where "q = pow2 (e - 52)"
  define r where "r = (of_int (round_half_even (x / q)) :: rat)"
  have q: "0 < q" by (simp add: q_def pow2_pos)
  have rd: "round_double x = r * q"
    using False by (simp add: round_double_def Let_def q_def e_def r_def)
  have xq: "x = (x / q) * q" using q by simp
  have "round_double x - x = r * q - (x / q) * q" using rd xq by simp
  also have "\<dots> = (r - x / q) * q" by (simp only: left_diff_distrib)
  finally have "\<bar>round_double x - x\<bar> = \<bar>r - x / q\<bar> * q"
    using q by (simp add: abs_mult)
  also have "\<dots> \<le> 1 / 2 * q"
    using round_half_even_near [of "x / q"] q unfolding r_def
    by (intro mult_right_mono) simp_all
  also have "\<dots> = pow2 e / 2 ^ 53"
  proof -
    have "pow2 e = q * 2 ^ 52" unfolding q_def by (rule pow2_shift)
    then show ?thesis by simp
  qed
  also have "\<dots> \<le> \<bar>x\<bar> / 2 ^ 53"
  proof -
    have "pow2 e \<le> \<bar>x\<bar>" unfolding e_def using False by (intro binary_exponent_lower) simp
    then show ?thesis by (intro divide_right_mono) simp_all
  qed
  finally show ?thesis .
qed

lemma round_double_of_int:
  assumes "\<bar>k\<bar> \<le> 2 ^ 53"
  shows "round_double (of_int k) = of_int k"
proof (cases "k = 0")
  case True
  then show ?thesis by (simp add: round_double_def)
next
  case False
  define n where "n = nat \<bar>k\<bar>"
  define e where "e = binary_exponent \<bar>of_int k\<bar>"
  define q where "q = pow2 (e - 52)"
  have n: "0 < n" using False by (simp add: n_def)
  have nk: "int n = \<bar>k\<bar>" by (simp add: n_def)
  have "1 \<le> \<bar>k\<bar>" using False by linarith
  then have "(of_int 1 :: rat) \<le> of_int \<bar>k\<bar>" by (simp only: of_int_le_iff)
  then have "(1::rat) \<le> \<bar>of_int k\<bar>" by simp
  moreover have "nat \<lfloor>\<bar>of_int k :: rat\<bar>\<rfloor> = n" by (simp add: n_def flip: of_int_abs)
  ultimately have e: "e = int (bit_length n) - 1"
    by (simp add: e_def binary_exponent_def)
  have le: "n \<le> 2 ^ 53"
  proof -
    have "int n \<le> int (2 ^ 53)" using assms nk by simp
    then show ?thesis by (simp only: of_nat_le_iff)
  qed
  have b: "bit_length n \<le> Suc 53" using le n by (rule bit_length_le)
  have q: "0 < q" by (simp add: q_def pow2_pos)
  have "\<exists>j. of_int k / q = (of_int j :: rat)"
  proof (cases "bit_length n = Suc 53")
    case True
    with le have "n = 2 ^ 53" by (rule bit_length_top)
    then have "\<bar>k\<bar> = 2 * 2 ^ 52" using nk by simp
    then have "k = 2 * 2 ^ 52 \<or> k = 2 * - (2 ^ 52)" by linarith
    moreover have "q = 2" using True by (simp add: q_def e pow2_def)
    ultimately have "of_int k / q = (of_int (2 ^ 52) :: rat)
        \<or> of_int k / q = (of_int (- (2 ^ 52)) :: rat)"
      by auto
    then show ?thesis by blast
  next
    case False
    with b have "e \<le> 52" by (simp add: e)
    then have "q = 1 / 2 ^ nat (52 - e)" by (simp add: q_def pow2_def)
    then have "of_int k / q = (of_int (k * 2 ^ nat (52 - e)) :: rat)" by simp
    then show ?thesis by blast
  qed
  then obtain j where j: "of_int k / q = (of_int j :: rat)" by blast
  have "round_double (of_int k) = of_int (round_half_even (of_int k / q)) * q"
    using \<open>k \<noteq> 0\<close> by (simp add: round_double_def Let_def q_def e_def)
  also have "\<dots> = of_int j * q" by (simp only: j round_half_even_of_int)
  also have "\<dots> = (of_int k / q) * q" by (simp only: j)
  also have "\<dots> = of_int k" using q by simp
  finally show ?thesis .
qed

lemma foldl_js_add_exact:
  assumes "\<forall>q \<in> set xs. 0 \<le> executionTime q"
    and "0 \<le> a"
    and "a + sum_list (map executionTime xs) \<le> 2 ^ 53"
  shows "foldl (\<lambda>sum q. js_add sum (of_int (executionTime q))) (of_int a) xs
           = of_int (a + sum_list (map executionTime xs))"
  using assms
proof (induction xs arbitrary: a)
  case Nil
  then show ?case by simp
next
  case (Cons x xs)
  have rest: "0 \<le> sum_list (map executionTime xs)"
    using Cons.prems(1) by (intro sum_list_nonneg) auto
  have x: "0 \<le> executionTime x" using Cons.prems(1) by simp
  have "\<bar>a + executionTime x\<bar> \<le> 2 ^ 53"
    using Cons.prems(2,3) rest x by simp
  then have step: "js_add (of_int a) (of_int (executionTime x)) = of_int (a + executionTime x)"
    using round_double_of_int [of "a + executionTime x"] by (simp add: js_add_def)
  have "foldl (\<lambda>sum q. js_add sum (of_int (executionTime q))) (of_int (a + executionTime x)) xs
      = of_int (a + executionTime x + sum_list (map executionTime xs))"
    using Cons.prems x by (intro Cons.IH) (simp_all add: add.assoc)
  then show ?case by (simp add: step add.assoc)
qed

lemma round_double_3004_3: "round_double (3004 / 3) = 8807821146237611 / 8796093022208"
proof -
  have bl: "bit_length 1001 = 10"
    by (simp add: bit_length.simps)
  have fl1: "\<lfloor>3004 / 3 :: rat\<rfloor> = 1001"
    by (simp add: floor_eq_iff)
  have be: "binary_exponent (3004 / 3) = 9"
    by (simp add: binary_exponent_def bl fl1)
  have q: "pow2 (9 - 52) = 1 / 8796093022208"
    by (simp add: pow2_def)
  have fl2: "\<lfloor>3004 / 3 / (1 / 8796093022208) :: rat\<rfloor> = 8807821146237610"
    by (simp add: floor_eq_iff)
  have rhe: "round_half_even (3004 / 3 / (1 / 8796093022208)) = 8807821146237611"
    unfolding round_half_even_def Let_def fl2 by simp
  have abs_x: "\<bar>3004 / 3 :: rat\<bar> = 3004 / 3"
    by simp
  show ?thesis
    unfolding round_double_def Let_def abs_x be q rhe by simp
qed

lemma three_slow_queries_sum:
  "foldl (\<lambda>sum q. js_add sum (of_int (executionTime q))) 0 (slowQueries three_slow_queries)
     = 3004"
  using foldl_js_add_exact [of "slowQueries three_slow_queries" 0]
  by (simp add: three_slow_queries_def)

text \<open>
  Claim C5, as stated, fails: for the recorded durations 1001, 1001 and 1002 the
  arithmetic mean is \<open>3004 / 3\<close>, and \<^verbatim>\<open>avgSlowQueryTime\<close> is the double
  \<open>8807821146237611 / 2 ^ 43\<close> (printed 1001.3333333333334).
\<close>

theorem mean_not_representable:
  "avgSlowQueryTime (getStats three_slow_queries) = 8807821146237611 / 8796093022208
   \<and> of_int (sum_list (map executionTime (slowQueries three_slow_queries)))
       / of_nat (length (slowQueries three_slow_queries)) = (3004 / 3 :: rat)
   \<and> avgSlowQueryTime (getStats three_slow_queries) \<noteq> 3004 / 3"
proof -
  have n: "length (slowQueries three_slow_queries) = 3"
    by (simp add: three_slow_queries_def)
  have "avgSlowQueryTime (getStats three_slow_queries) = round_double (3004 / 3)"
    by (simp add: getStats_def three_slow_queries_sum n js_div_def)
  then have a: "avgSlowQueryTime (getStats three_slow_queries)
      = 8807821146237611 / 8796093022208"
    by (simp only: round_double_3004_3)
  have b: "of_int (sum_list (map executionTime (slowQueries three_slow_queries)))
       / of_nat (length (slowQueries three_slow_queries)) = (3004 / 3 :: rat)"
    by (simp add: three_slow_queries_def)
  have c: "(8807821146237611 / 8796093022208 :: rat) \<noteq> 3004 / 3" by simp
  from a b c show ?thesis by simp
qed

text \<open>
  Claim C5, amended. For recorded durations that are integers not below 0 with a sum of
  at most \<open>2 ^ 53\<close> (so that the running sum is exact), \<^verbatim>\<open>avgSlowQueryTime\<close> is 0 when
  no slow query is recorded and otherwise the arithmetic mean (sum divided by count)
  rounded to the nearest double: it differs from the mean by at most the mean times
  \<open>2 ^ -53\<close>, and it is the mean when the count divides the sum.
\<close>

theorem avgSlowQueryTime_rounded_mean:
  assumes "\<forall>q \<in> set (slowQueries m). 0 \<le> executionTime q"
    and "sum_list (map executionTime (slowQueries m)) \<le> 2 ^ 53"
  shows "avgSlowQueryTime (getStats m) =
       (if slowQueries m = [] then 0
        else round_double (of_int (sum_list (map executionTime (slowQueries m)))
                            / of_nat (length (slowQueries m))))
     \<and> \<bar>avgSlowQueryTime (getStats m)
           - of_int (sum_list (map executionTime (slowQueries m)))
               / of_nat (length (slowQueries m))\<bar>
         \<le> \<bar>of_int (sum_list (map executionTime (slowQueries m)))
               / of_nat (length (slowQueries m))\<bar> / 2 ^ 53
     \<and> (int (length (slowQueries m)) dvd sum_list (map executionTime (slowQueries m)) \<longrightarrow>
          avgSlowQueryTime (getStats m)
            = of_int (sum_list (map executionTime (slowQueries m)))
                / of_nat (length (slowQueries m)))"
proof -
  define s where "s = sum_list (map executionTime (slowQueries m))"
  define n where "n = length (slowQueries m)"
  have fold: "foldl (\<lambda>sum q. js_add sum (of_int (executionTime q))) 0 (slowQueries m) = of_int s"
    using foldl_js_add_exact [of "slowQueries m" 0] assms by (simp add: s_def)
  have avg: "avgSlowQueryTime (getStats m) =
      (if slowQueries m = [] then 0 else round_double (of_int s / of_nat n))"
    by (simp add: getStats_def fold js_div_def n_def)
  have s0: "0 \<le> s" unfolding s_def using assms(1) by (intro sum_list_nonneg) auto
  have near: "\<bar>avgSlowQueryTime (getStats m) - of_int s / of_nat n\<bar>
      \<le> \<bar>of_int s / of_nat n\<bar> / 2 ^ 53"
  proof (cases "slowQueries m = []")
    case True
    then show ?thesis by (simp add: avg n_def s_def)
  next
    case False
    then show ?thesis using round_double_near [of "of_int s / of_nat n"] by (simp add: avg)
  qed
  have exact: "avgSlowQueryTime (getStats m) = of_int s / of_nat n" if d: "int n dvd s"
  proof (cases "slowQueries m = []")
    case True
    then show ?thesis by (simp add: avg n_def s_def)
  next
    case False
    then have n: "0 < n" by (simp add: n_def)
    from d obtain j where j: "s = int n * j" by (auto simp: dvd_def)
    have j0: "0 \<le> j" using s0 n j by (simp add: zero_le_mult_iff)
    have "j \<le> int n * j" using n j0 by (simp add: mult_le_cancel_right1)
    then have "\<bar>j\<bar> \<le> 2 ^ 53" using j0 j assms(2) by (simp add: s_def)
    then have "round_double (of_int j) = of_int j" by (rule round_double_of_int)
    moreover have "(of_int s / of_nat n :: rat) = of_int j" using n by (simp add: j)
    ultimately show ?thesis using False by (simp add: avg)
  qed
  from avg near exact show ?thesis by (simp add: s_def n_def)
qed

theorem avgSlowQueryTime_rounded_mean_witness:
  "sum_list (map executionTime (slowQueries two_slow_queries)) = 3500
   \<and> length (slowQueries two_slow_queries) = 2
   \<and> avgSlowQueryTime (getStats two_slow_queries) = 1750
   \<and> avgSlowQueryTime (getStats (new_MySQLMonitor no_args)) = 0
   \<and> sum_list (map executionTime (slowQueries three_slow_queries)) = 3004
   \<and> length (slowQueries three_slow_queries) = 3
   \<and> avgSlowQueryTime (getStats three_slow_queries) = 8807821146237611 / 8796093022208"
proof -
  have h1: "\<forall>q \<in> set (slowQueries two_slow_queries). 0 \<le> executionTime q"
    by (simp add: two_slow_queries_def)
  have h2: "sum_list (map executionTime (slowQueries two_slow_queries)) \<le> 2 ^ 53"
    by (simp add: two_slow_queries_def)
  have e1: "\<forall>q \<in> set (slowQueries (new_MySQLMonitor no_args)). 0 \<le> executionTime q"
    by (simp add: new_MySQLMonitor_def)
  have e2: "sum_list (map executionTime (slowQueries (new_MySQLMonitor no_args))) \<le> 2 ^ 53"
    by (simp add: new_MySQLMonitor_def)
  have t1: "\<forall>q \<in> set (slowQueries three_slow_queries). 0 \<le> executionTime q"
    by (simp add: three_slow_queries_def)
  have t2: "sum_list (map executionTime (slowQueries three_slow_queries)) \<le> 2 ^ 53"
    by (simp add: three_slow_queries_def)
  have s: "sum_list (map executionTime (slowQueries two_slow_queries)) = 3500"
    "length (slowQueries two_slow_queries) = 2"
    "sum_list (map executionTime (slowQueries three_slow_queries)) = 3004"
    "length (slowQueries three_slow_queries) = 3"
    "slowQueries three_slow_queries \<noteq> []"
    by (simp_all add: two_slow_queries_def three_slow_queries_def)
  have z: "slowQueries (new_MySQLMonitor no_args) = []"
    by (simp add: new_MySQLMonitor_def)
  from avgSlowQueryTime_rounded_mean [OF h1 h2] avgSlowQueryTime_rounded_mean [OF e1 e2]
    avgSlowQueryTime_rounded_mean [OF t1 t2] s z
  show ?thesis by (simp add: round_double_3004_3)
qed

section \<open>checkWarnings\<close>

lemma forEach_frame:
  "options (fst (forEach_warning clock q t i ws st)) = options (fst st)
   \<and> slowQueries (fst (forEach_warning clock q t i ws st)) = slowQueries (fst st)"
  by (induction clock q t i ws st rule: forEach_warning.induct) (auto simp: Let_def)

text \<open>
  The loop appends one record per warning to the general log, and the records of the
  warnings the classifier accepts, in the same order, to the deprecation log.
\<close>

lemma forEach_warnings:
  "warnings (fst (forEach_warning clock q t i ws (m, out))) =
     warnings m @ map (\<lambda>(j, w). warningData clock q t j w) (enumerate i ws)"
  by (induction ws arbitrary: i m out) (simp_all add: Let_def)

lemma forEach_deprecationWarnings:
  "deprecationWarnings (fst (forEach_warning clock q t i ws (m, out))) =
     deprecationWarnings m @
       map (\<lambda>(j, w). warningData clock q t j w)
         (filter (\<lambda>(j, w). isDeprecationWarning w) (enumerate i ws))"
  by (induction ws arbitrary: i m out) (simp_all add: Let_def)

lemma forEach_subset:
  "set (deprecationWarnings m) \<subseteq> set (warnings m) \<Longrightarrow>
   set (deprecationWarnings (fst (forEach_warning clock q t i ws (m, out))))
     \<subseteq> set (warnings (fst (forEach_warning clock q t i ws (m, out))))"
  by (auto simp: forEach_warnings forEach_deprecationWarnings)

lemma checkWarnings_logs:
  "warnings (fst (checkWarnings m connection clock q t)) =
     (case connection ''SHOW WARNINGS'' of
        Inr (Some ws) \<Rightarrow> warnings (fst (forEach_warning clock q t 0 ws (m, [])))
      | _ \<Rightarrow> warnings m)"
  "deprecationWarnings (fst (checkWarnings m connection clock q t)) =
     (case connection ''SHOW WARNINGS'' of
        Inr (Some ws) \<Rightarrow> deprecationWarnings (fst (forEach_warning clock q t 0 ws (m, [])))
      | _ \<Rightarrow> deprecationWarnings m)"
  by (auto simp: checkWarnings_def Let_def split: sum.splits option.splits prod.splits)

lemma checkWarnings_subset:
  "set (deprecationWarnings m) \<subseteq> set (warnings m) \<Longrightarrow>
   set (deprecationWarnings (fst (checkWarnings m connection clock q t)))
     \<subseteq> set (warnings (fst (checkWarnings m connection clock q t)))"
  using forEach_subset [of m clock q t 0 _ "[]"]
  by (simp add: checkWarnings_logs split: sum.splits option.splits)

lemma reachable_subset:
  "reachable m \<Longrightarrow> set (deprecationWarnings m) \<subseteq> set (warnings m)"
proof (induction rule: reachable.induct)
  case (reachable_new args)
  show ?case by (simp add: new_MySQLMonitor_def)
next
  case (reachable_checkWarnings m connection clock queryText t)
  from reachable_checkWarnings.IH show ?case by (rule checkWarnings_subset)
next
  case (reachable_clear m)
  show ?case by (simp add: clear_def)
qed

lemma checkWarnings_slowQueries:
  "slowQueries (fst (checkWarnings m connection clock q t)) =
     (case connection ''SHOW WARNINGS'' of
        Inl e \<Rightarrow> slowQueries m
      | Inr r \<Rightarrow>
          if truthy (trackSlowQueries (options m)) \<and> js_gt t (slowQueryThreshold (options m))
          then slowQueries m @
                 [\<lparr> timestamp = clock (case r of None \<Rightarrow> 0 | Some ws \<Rightarrow> length ws),
                    query = q, executionTime = t \<rparr>]
          else slowQueries m)"
proof (cases "connection ''SHOW WARNINGS''")
  case (Inl e)
  then show ?thesis by (simp add: checkWarnings_def)
next
  case (Inr r)
  show ?thesis
  proof (cases r)
    case None
    with Inr show ?thesis by (simp add: checkWarnings_def)
  next
    case (Some ws)
    obtain m1 out1 where f: "forEach_warning clock q t 0 ws (m, []) = (m1, out1)"
      by (cases "forEach_warning clock q t 0 ws (m, [])")
    have "options m1 = options m" "slowQueries m1 = slowQueries m"
      using forEach_frame [of clock q t 0 ws "(m, [])"] f by simp_all
    with Inr Some f show ?thesis
      by (cases ws) (simp_all add: checkWarnings_def)
  qed
qed

text \<open>
  A failure of the \<^verbatim>\<open>SHOW WARNINGS\<close> query is caught: \<^verbatim>\<open>checkWarnings\<close> returns, the
  monitor is as before, and the error goes to the logger when \<^verbatim>\<open>logWarnings\<close> is on.
\<close>

lemma checkWarnings_swallows_failure:
  "connection ''SHOW WARNINGS'' = Inl e \<Longrightarrow>
     checkWarnings m connection clock q t =
       (m, if truthy (logWarnings (options m)) then [ErrorCheckingWarnings e] else [])"
  by (simp add: checkWarnings_def)

text \<open>
  Claim C3, as stated, fails: with tracking on, the threshold 1000 and a duration of
  1001, nothing is recorded when the \<^verbatim>\<open>SHOW WARNINGS\<close> query of the same call rejects
  (the slow-query test sits in the same \<^verbatim>\<open>try\<close> block, after that query).
\<close>

theorem slow_query_lost_when_warnings_query_fails:
  "truthy (trackSlowQueries (options (new_MySQLMonitor no_args)))
   \<and> slowQueryThreshold (options (new_MySQLMonitor no_args)) = JNum 1000
   \<and> (1001 :: int) > 1000
   \<and> slowQueries
         (fst (checkWarnings (new_MySQLMonitor no_args) lost_connection epoch ''SELECT 1'' 1001))
       = slowQueries (new_MySQLMonitor no_args)"
  by (simp add: checkWarnings_def lost_connection_def new_MySQLMonitor_def no_args_def
      spread_def read_key_def js_or_def)

text \<open>
  Claim C3, amended. With tracking on and a numeric threshold: when the
  \<^verbatim>\<open>SHOW WARNINGS\<close> query of the call succeeds, one slow-query record (timestamp, query
  text, duration) is appended if the duration is strictly greater than the threshold, and
  none otherwise (a duration equal to the threshold records nothing); when that query
  fails, nothing is recorded whatever the duration.
\<close>

theorem slow_query_recorded_iff:
  assumes "truthy (trackSlowQueries (options m))"
    and "slowQueryThreshold (options m) = JNum threshold"
  shows "slowQueries (fst (checkWarnings m connection clock q t)) =
     (case connection ''SHOW WARNINGS'' of
        Inl e \<Rightarrow> slowQueries m
      | Inr r \<Rightarrow>
          if t > threshold
          then slowQueries m @
                 [\<lparr> timestamp = clock (case r of None \<Rightarrow> 0 | Some ws \<Rightarrow> length ws),
                    query = q, executionTime = t \<rparr>]
          else slowQueries m)"
  using assms by (simp add: checkWarnings_slowQueries split: sum.splits)

theorem slow_query_recorded_iff_witness:
  "truthy (trackSlowQueries (options (new_MySQLMonitor no_args)))
   \<and> slowQueryThreshold (options (new_MySQLMonitor no_args)) = JNum 1000
   \<and> slowQueries
         (fst (checkWarnings (new_MySQLMonitor no_args) quiet_connection epoch ''SELECT 1'' 1000))
       = []
   \<and> slowQueries
         (fst (checkWarnings (new_MySQLMonitor no_args) quiet_connection epoch ''SELECT 1'' 1001))
       = [\<lparr> timestamp = epoch 0, query = ''SELECT 1'', executionTime = 1001 \<rparr>]"
proof -
  have h1: "truthy (trackSlowQueries (options (new_MySQLMonitor no_args)))"
    by (simp add: new_MySQLMonitor_def no_args_def spread_def read_key_def)
  have h2: "slowQueryThreshold (options (new_MySQLMonitor no_args)) = JNum 1000"
    by (simp add: new_MySQLMonitor_def no_args_def spread_def read_key_def js_or_def)
  have e: "slowQueries (new_MySQLMonitor no_args) = []"
    by (simp add: new_MySQLMonitor_def)
  from slow_query_recorded_iff [OF h1 h2, of quiet_connection epoch "''SELECT 1''" 1000]
    slow_query_recorded_iff [OF h1 h2, of quiet_connection epoch "''SELECT 1''" 1001]
    h1 h2 e
  show ?thesis by (simp add: quiet_connection_def)
qed

text \<open>
  Claim C9, as stated, fails: on a fresh monitor, a call whose warning sequence is empty
  and whose duration is 2000 appends a slow-query record.
\<close>

theorem empty_warnings_records_slow_query:
  "quiet_connection ''SHOW WARNINGS'' = Inr (Some [])
   \<and> slowQueries (new_MySQLMonitor no_args) = []
   \<and> slowQueries
         (fst (checkWarnings (new_MySQLMonitor no_args) quiet_connection epoch
                 ''SELECT SLEEP(2)'' 2000))
       = [\<lparr> timestamp = epoch 0, query = ''SELECT SLEEP(2)'', executionTime = 2000 \<rparr>]"
  by (simp add: checkWarnings_def quiet_connection_def new_MySQLMonitor_def no_args_def
      spread_def read_key_def js_or_def)

text \<open>
  Claim C9, amended. A call of \<^verbatim>\<open>checkWarnings\<close> whose warning sequence is empty leaves
  the warning log, the deprecation log and the options as they are, and the whole monitor
  when tracking is off or the duration is not above the threshold; otherwise it appends
  the slow-query record of the call to the slow-query log (and has the logger told, when
  \<^verbatim>\<open>logWarnings\<close> is on) and changes nothing else.
\<close>

theorem checkWarnings_empty_warnings:
  assumes "connection ''SHOW WARNINGS'' = Inr (Some [])"
  shows "checkWarnings m connection clock q t =
     (if truthy (trackSlowQueries (options m)) \<and> js_gt t (slowQueryThreshold (options m))
      then (m\<lparr>slowQueries :=
                 slowQueries m @ [\<lparr> timestamp = clock 0, query = q, executionTime = t \<rparr>]\<rparr>,
            if truthy (logWarnings (options m))
            then [WarnSlowQuery q t (slowQueryThreshold (options m))] else [])
      else (m, []))"
  using assms by (simp add: checkWarnings_def)

theorem checkWarnings_empty_warnings_witness:
  "quiet_connection ''SHOW WARNINGS'' = Inr (Some [])
   \<and> checkWarnings (new_MySQLMonitor no_args) quiet_connection epoch ''SELECT 1'' 5
       = (new_MySQLMonitor no_args, [])
   \<and> checkWarnings (new_MySQLMonitor no_args) quiet_connection epoch ''SELECT 1'' 2000
       = ((new_MySQLMonitor no_args)
            \<lparr>slowQueries :=
               [\<lparr> timestamp = epoch 0, query = ''SELECT 1'', executionTime = 2000 \<rparr>]\<rparr>,
          [WarnSlowQuery ''SELECT 1'' 2000 (JNum 1000)])"
proof -
  have h: "quiet_connection ''SHOW WARNINGS'' = Inr (Some [])"
    by (simp add: quiet_connection_def)
  from checkWarnings_empty_warnings
         [where connection = quiet_connection and m = "new_MySQLMonitor no_args"
            and clock = epoch and q = "''SELECT 1''" and t = 5, OF h]
    checkWarnings_empty_warnings
         [where connection = quiet_connection and m = "new_MySQLMonitor no_args"
            and clock = epoch and q = "''SELECT 1''" and t = 2000, OF h]
    h
  show ?thesis
    by (simp add: new_MySQLMonitor_def no_args_def spread_def read_key_def js_or_def)
qed

text \<open>
  Claim C4. In every state the monitor reaches, each record of the deprecation log is in
  the general warning log; and recording one warning that the classifier accepts (such as
  the one with the message \<^verbatim>\<open>The 'authentication_string' column is deprecated\<close>) appends
  its record exactly once to each of the two logs.
\<close>

theorem deprecation_log_within_warning_log:
  "reachable m \<Longrightarrow>
     set (deprecationWarnings m) \<subseteq> set (warnings m)
     \<and> (connection ''SHOW WARNINGS'' = Inr (Some [warning]) \<longrightarrow>
        isDeprecationWarning warning \<longrightarrow>
          warnings (fst (checkWarnings m connection clock q t))
            = warnings m @ [warningData clock q t 0 warning]
          \<and> deprecationWarnings (fst (checkWarnings m connection clock q t))
            = deprecationWarnings m @ [warningData clock q t 0 warning])"
  by (simp add: reachable_subset checkWarnings_logs Let_def)

theorem deprecation_log_within_warning_log_witness:
  "reachable (new_MySQLMonitor no_args)
   \<and> auth_connection ''SHOW WARNINGS'' = Inr (Some [auth_warning])
   \<and> isDeprecationWarning auth_warning
   \<and> warnings (fst (checkWarnings (new_MySQLMonitor no_args) auth_connection epoch
                       ''SELECT 1'' 5))
       = [warningData epoch ''SELECT 1'' 5 0 auth_warning]
   \<and> deprecationWarnings (fst (checkWarnings (new_MySQLMonitor no_args) auth_connection epoch
                                  ''SELECT 1'' 5))
       = [warningData epoch ''SELECT 1'' 5 0 auth_warning]
   \<and> count_list (warnings (fst (checkWarnings (new_MySQLMonitor no_args) auth_connection epoch
                                   ''SELECT 1'' 5)))
        (warningData epoch ''SELECT 1'' 5 0 auth_warning) = 1
   \<and> count_list (deprecationWarnings (fst (checkWarnings (new_MySQLMonitor no_args)
                                   auth_connection epoch ''SELECT 1'' 5)))
        (warningData epoch ''SELECT 1'' 5 0 auth_warning) = 1
   \<and> message (warningData epoch ''SELECT 1'' 5 0 auth_warning)
       = ''The 'authentication_string' column is deprecated''"
proof -
  have r: "reachable (new_MySQLMonitor no_args)" by (rule reachable_new)
  have c: "auth_connection ''SHOW WARNINGS'' = Inr (Some [auth_warning])"
    by (simp add: auth_connection_def)
  have e: "warnings (new_MySQLMonitor no_args) = []"
    "deprecationWarnings (new_MySQLMonitor no_args) = []"
    by (simp_all add: new_MySQLMonitor_def)
  have m: "message (warningData epoch ''SELECT 1'' 5 0 auth_warning)
       = ''The 'authentication_string' column is deprecated''"
    by (simp add: warningData_def auth_warning_def)
  from deprecation_log_within_warning_log
         [OF r, of auth_connection auth_warning epoch "''SELECT 1''" 5]
    r c e m auth_warning_is_deprecation
  show ?thesis by simp
qed

section \<open>The monitoring middleware\<close>

text \<open>
  While the connection's \<^verbatim>\<open>query\<close> property holds a \<^verbatim>\<open>monitoredQuery\<close>, no call of a
  \<^verbatim>\<open>monitoredQuery\<close> returns: after its own query it calls \<^verbatim>\<open>checkWarnings\<close> on
  the connection, whose \<^verbatim>\<open>connection.query('SHOW WARNINGS')\<close> is again a call of the
  \<^verbatim>\<open>monitoredQuery\<close> the property holds.
\<close>

lemma call_query_reenters:
  "call_query fuel D (MonitoredQuery f) (MonitoredQuery g) w a = None"
proof (induction fuel arbitrary: g w a)
  case 0
  show ?case by simp
next
  case (Suc fuel)
  have live: "checkWarnings_on fuel D (MonitoredQuery f) w1 q t = None" for w1 q t
    using Suc.IH [of f w1 "ArgText ''SHOW WARNINGS''"] by simp
  show ?case
    by (simp add: live Let_def del: checkWarnings_on.simps
        split: option.splits sum.splits prod.splits)
qed

text \<open>
  For comparison: a \<^verbatim>\<open>monitoredQuery\<close> called while the property holds the driver's
  method (so that \<^verbatim>\<open>SHOW WARNINGS\<close> goes to the driver) returns what the driver answered
  to its query, result or error.
\<close>

lemma monitoredQuery_on_driver_slot:
  "\<exists>w'. call_query (Suc fuel) D DriverQuery (MonitoredQuery DriverQuery) w a
          = Some (answer D (issued w) a, w')"
  by (simp add: Let_def split: sum.splits prod.splits)

text \<open>
  Claim C1 fails on the code. The middleware replaces \<^verbatim>\<open>req.db.connection.query\<close> by
  \<^verbatim>\<open>monitoredQuery\<close>; a call of the replaced property then returns within no bound on
  the nesting, whatever the driver answers: the caller gets neither the result nor the
  error of the underlying query.
\<close>

theorem monitoredQuery_never_returns:
  "createMonitoringMiddleware (Some originalQuery) = Some (MonitoredQuery originalQuery)
   \<and> call_query fuel D (MonitoredQuery originalQuery) (MonitoredQuery originalQuery) w a = None"
  by (simp add: createMonitoringMiddleware_def call_query_reenters)

theorem monitoredQuery_never_returns_witness:
  "createMonitoringMiddleware (Some DriverQuery) = Some (MonitoredQuery DriverQuery)
   \<and> answer empty_driver 0 (ArgText ''SELECT 1'') = Inr []
   \<and> call_query 3 empty_driver (MonitoredQuery DriverQuery) (MonitoredQuery DriverQuery)
        fresh_world (ArgText ''SELECT 1'') = None"
  using monitoredQuery_never_returns
          [of DriverQuery 3 empty_driver fresh_world "ArgText ''SELECT 1''"]
  by (simp add: empty_driver_def)

section \<open>scanTrailingSpaces\<close>

lemma scanTrailingSpaces_loop_eq:
  "scanTrailingSpaces_loop m conn t cols (results, out) =
     (results @ concat (map (column_entry conn t) cols),
      out @ concat (map (column_log m conn t) cols))"
  by (induction cols arbitrary: results out)
     (auto simp: column_entry_def column_log_def split: sum.splits option.splits)

text \<open>Each column adds its own entry and log line, whatever the other columns do.\<close>

lemma scanTrailingSpaces_eq:
  "scanTrailingSpaces m conn t cols =
     (concat (map (column_entry conn t) cols), concat (map (column_log m conn t) cols))"
  by (simp add: scanTrailingSpaces_def scanTrailingSpaces_loop_eq)

text \<open>The texts of the sample counts, and the definitions the sample runs unfold.\<close>

lemma small_decimal_texts:
  "decimal_text 0 = ''0''" "decimal_text 2 = ''2''" "decimal_text 3 = ''3''"
  by (simp_all add: decimal_text.simps digit_char_def)

lemmas text_defs =
  text_gt0_def text_number_def digit_value_def number_text_def digit_char_def

lemmas shop_defs =
  run_scanner_def scanDatabase_def dbConfig_def shop_env_def env_or_def denied_server_def
  shop_server_def getAllTables_def getStringColumns_def scanColumn_def shop_counts_def
  getSampleRows_def failure_lines_def summary_def schema_scans_def column_scans_def
  trim_statement_def small_decimal_texts text_defs

text \<open>
  Claim C6, as stated, fails. In \<^verbatim>\<open>scanTrailingSpaces\<close> the result for a table whose
  \<^verbatim>\<open>name\<close> query is denied is the result for the same table with no hit in
  \<^verbatim>\<open>name\<close>: the failed column has no entry of its own. In the script, the denied
  query on \<^verbatim>\<open>users.name\<close> ends the run with exit code 1 before \<^verbatim>\<open>users.email\<close> is
  scanned, and the output has no line for that column, which a run without the failure
  reports.
\<close>

theorem failed_column_not_reported:
  "denied_name_connection ''users'' ''name'' = Inl (Error ''SELECT command denied'')
   \<and> clean_name_connection ''users'' ''name'' = Inr (Some [])
   \<and> fst (scanTrailingSpaces (new_MySQLMonitor no_args) denied_name_connection ''users''
           [''name'', ''email''])
     = fst (scanTrailingSpaces (new_MySQLMonitor no_args) clean_name_connection ''users''
             [''name'', ''email''])
   \<and> fst (run_scanner shop_env denied_server) = 1
   \<and> AffectedColumn ''users'' ''email'' (SumDecimal 3)
       \<notin> set (snd (run_scanner shop_env denied_server))
   \<and> AffectedColumn ''users'' ''email'' (SumDecimal 3)
       \<in> set (snd (run_scanner shop_env shop_server))"
  by (simp add: scanTrailingSpaces_def denied_name_connection_def clean_name_connection_def
      shop_defs)

text \<open>
  Claim C6, amended. In \<^verbatim>\<open>scanTrailingSpaces\<close> a column whose query fails does not stop
  the scan: the result is the result for the columns before it followed by the result
  for the columns after it, each as when scanned alone. The failed column adds no entry to
  the result; it is told to the logger, between the lines of the columns before and
  after it, when \<^verbatim>\<open>logWarnings\<close> is on, and not at all otherwise.
\<close>

theorem scanTrailingSpaces_isolates_failure:
  "connection tableName bad = Inl error \<Longrightarrow>
     fst (scanTrailingSpaces m connection tableName (before @ bad # after))
       = fst (scanTrailingSpaces m connection tableName before)
         @ fst (scanTrailingSpaces m connection tableName after)
     \<and> snd (scanTrailingSpaces m connection tableName (before @ bad # after))
       = snd (scanTrailingSpaces m connection tableName before)
         @ (if truthy (logWarnings (options m))
            then [ErrorScanningColumn bad tableName error] else [])
         @ snd (scanTrailingSpaces m connection tableName after)"
  by (simp add: scanTrailingSpaces_eq column_entry_def column_log_def)

theorem scanTrailingSpaces_isolates_failure_witness:
  "denied_name_connection ''users'' ''name'' = Inl (Error ''SELECT command denied'')
   \<and> fst (scanTrailingSpaces (new_MySQLMonitor no_args) denied_name_connection ''users''
           ([''email''] @ ''name'' # [''email'']))
     = fst (scanTrailingSpaces (new_MySQLMonitor no_args) denied_name_connection ''users''
             [''email''])
       @ fst (scanTrailingSpaces (new_MySQLMonitor no_args) denied_name_connection ''users''
               [''email''])
   \<and> map column (fst (scanTrailingSpaces (new_MySQLMonitor no_args) denied_name_connection
           ''users'' ([''email''] @ ''name'' # [''email''])))
     = [''email'', ''email'']
   \<and> snd (scanTrailingSpaces (new_MySQLMonitor no_args) denied_name_connection ''users''
           ([''email''] @ ''name'' # [''email'']))
     = [WarnTrailingSpaces ''users'' ''email'' 1,
        ErrorScanningColumn ''name'' ''users'' (Error ''SELECT command denied''),
        WarnTrailingSpaces ''users'' ''email'' 1]"
proof -
  have h: "denied_name_connection ''users'' ''name'' = Inl (Error ''SELECT command denied'')"
    by (simp add: denied_name_connection_def)
  from scanTrailingSpaces_isolates_failure
         [where connection = denied_name_connection and tableName = "''users''"
            and bad = "''name''" and m = "new_MySQLMonitor no_args"
            and before = "[''email'']" and after = "[''email'']", OF h] h
  show ?thesis
    by (simp add: scanTrailingSpaces_def denied_name_connection_def clean_name_connection_def
        new_MySQLMonitor_def no_args_def spread_def read_key_def)
qed

section \<open>The scanner script\<close>

text \<open>A text of digits reads as its number, and joining texts of digits gives one.\<close>

lemma digit_value_digit_char: "d < 10 \<Longrightarrow> digit_value (digit_char d) = Some d"
proof -
  assume "d < 10"
  then have "d \<in> {0, 1, 2, 3, 4, 5, 6, 7, 8, 9}" by (simp add: numeral_eq_Suc) presburger
  then show ?thesis
    by (elim insertE emptyE) (simp_all add: digit_char_def digit_value_def)
qed

lemma text_number_from_append:
  "text_number_from a (xs @ ys) =
     (case text_number_from a xs of None \<Rightarrow> None | Some b \<Rightarrow> text_number_from b ys)"
  by (induction xs arbitrary: a) (simp_all split: option.splits)

lemma text_number_from_decimal_text:
  "text_number_from a (decimal_text n) = Some (a * 10 ^ length (decimal_text n) + n)"
proof (induction n arbitrary: a rule: decimal_text.induct)
  case (1 n)
  show ?case
  proof (cases "n < 10")
    case True
    then show ?thesis
      by (subst (1 2) decimal_text.simps) (simp add: digit_value_digit_char)
  next
    case False
    have m: "n mod 10 < 10" by simp
    have dt: "decimal_text n = decimal_text (n div 10) @ [digit_char (n mod 10)]"
      using False by (subst decimal_text.simps) simp
    have "text_number_from a (decimal_text n)
        = Some (10 * (a * 10 ^ length (decimal_text (n div 10)) + n div 10) + n mod 10)"
      using "1.IH" [OF False, of a]
      by (simp add: dt text_number_from_append digit_value_digit_char [OF m])
    also have "10 * (a * 10 ^ length (decimal_text (n div 10)) + n div 10) + n mod 10
        = a * 10 ^ length (decimal_text n) + n"
      by (simp add: dt algebra_simps)
    finally show ?thesis .
  qed
qed

lemma text_gt0_decimal_text: "text_gt0 (decimal_text n) = (0 < n)"
  by (simp add: text_gt0_def text_number_def text_number_from_decimal_text)

lemma count_gt0_simps:
  "count_gt0 (SumDecimal n) = (0 < n)"
  by (simp add: text_gt0_decimal_text)










text \<open>
  Claim C8 fails on the code. On the connection the script makes, the count of a column
  arrives as a text, and \<^verbatim>\<open>totalIssues += result.trailingSpaceCount\<close> joins texts
  instead of adding numbers: for the sample schema, with 3 affected rows in
  \<^verbatim>\<open>users.email\<close> and 2 in \<^verbatim>\<open>orders.note\<close>, the scan of a column returns the text
  \<^verbatim>\<open>'3'\<close>, the total after the scan is the text \<^verbatim>\<open>'032'\<close>, and the summary reports it,
  where the sum of the counts is 5.
\<close>

theorem totalIssues_joins_texts:
  "scanColumn shop_server ''users'' ''email''
     = Inr \<lparr> table = ''users'', column = ''email'', totalRows = 10,
             trailingSpaceCount = SumDecimal 3 \<rparr>
   \<and> scan_tables shop_server (dbConfig shop_env) [''users'', ''orders'']
       ([], TotalNumber 0, [])
     = Inr ([\<lparr> table = ''users'', column = ''email'', totalRows = 10,
               trailingSpaceCount = SumDecimal 3 \<rparr>,
             \<lparr> table = ''orders'', column = ''note'', totalRows = 5,
               trailingSpaceCount = SumDecimal 2 \<rparr>],
            TotalText ''032'',
            [ScanningTable ''users'', ColumnWarning ''users'' ''email'' (SumDecimal 3) 10,
             CompletedTable ''users'', ScanningTable ''orders'',
             ColumnWarning ''orders'' ''note'' (SumDecimal 2) 5, CompletedTable ''orders''])
   \<and> FoundIssues (TotalText ''032'') 2 \<in> set (snd (run_scanner shop_env shop_server))"
  by (simp add: shop_defs)

theorem totalIssues_joins_texts_witness:
  "sum_list [3, 2] = (5 :: int)
   \<and> FoundIssues (TotalNumber 5) 2 \<notin> set (snd (run_scanner shop_env shop_server))
   \<and> FoundIssues (TotalText ''032'') 2 \<in> set (snd (run_scanner shop_env shop_server))"
  using totalIssues_joins_texts
  by (simp add: shop_defs)

end
